theory Spec2Isabelle
  imports Complex_Main
begin

section \<open>The simpleRT ray tracer (\<^verbatim>\<open>src/code.py\<close>)\<close>

text \<open>
  A shallow embedding of \<^verbatim>\<open>RT_trace_ray\<close> and \<^verbatim>\<open>RT_render_scene\<close>.

  Numbers. Python floats and the components of a mathutils \<^verbatim>\<open>Vector\<close> are modelled by
  \<^typ>\<open>real\<close>: the arithmetic is exact, and rounding and overflow are outside the model.
  What the source does where real arithmetic has no value is modelled as the source does
  it:
  \<^item> a Python float division and a mathutils vector division by zero raise
    \<^verbatim>\<open>ZeroDivisionError\<close>, and a write outside the shape of the pixel buffer raises
    \<^verbatim>\<open>IndexError\<close>: the function returns \<open>Inl\<close> of the error and nothing after it is
    executed;
  \<^item> numpy does not raise. A numpy division by zero and a numpy power without a real value
    (a negative base with a fractional exponent, zero with a negative exponent) only warn,
    produce \<^verbatim>\<open>inf\<close> or \<^verbatim>\<open>nan\<close>, and the computation goes on. A numpy float is
    therefore a \<^typ>\<open>real option\<close>, where \<open>None\<close> stands for \<^verbatim>\<open>inf\<close>, \<^verbatim>\<open>-inf\<close> and
    \<^verbatim>\<open>nan\<close>. The colours are the only numpy arrays of the source, and they are only
    added and multiplied, so a value that is not finite stays not finite.

  Effects. Blender's \<^verbatim>\<open>Scene.ray_cast\<close> is the intersection oracle; it is a field of
  the scene. Every function that queries the oracle returns, next to its result, the list
  of the rays it has cast, in the order of the calls.
\<close>

subsection \<open>Vectors (\<^verbatim>\<open>mathutils.Vector\<close>)\<close>

type_synonym vec = "real \<times> real \<times> real"

text \<open>A ray as the oracle receives it: origin and direction.\<close>

type_synonym ray = "vec \<times> vec"

datatype error = ZeroDivisionError | IndexError

fun vadd :: "vec \<Rightarrow> vec \<Rightarrow> vec" where
  "vadd (a1, a2, a3) (b1, b2, b3) = (a1 + b1, a2 + b2, a3 + b3)"

fun vsub :: "vec \<Rightarrow> vec \<Rightarrow> vec" where
  "vsub (a1, a2, a3) (b1, b2, b3) = (a1 - b1, a2 - b2, a3 - b3)"

fun vneg :: "vec \<Rightarrow> vec" where
  "vneg (a1, a2, a3) = (- a1, - a2, - a3)"

text \<open>Scalar times vector, vector over scalar, and the componentwise product of two vectors
  (\<^verbatim>\<open>Vector * Vector\<close> since Blender 2.8).\<close>

fun smul :: "real \<Rightarrow> vec \<Rightarrow> vec" where
  "smul k (a1, a2, a3) = (k * a1, k * a2, k * a3)"

fun sdiv :: "vec \<Rightarrow> real \<Rightarrow> vec" where
  "sdiv (a1, a2, a3) k = (a1 / k, a2 / k, a3 / k)"

fun vmul :: "vec \<Rightarrow> vec \<Rightarrow> vec" where
  "vmul (a1, a2, a3) (b1, b2, b3) = (a1 * b1, a2 * b2, a3 * b3)"

fun dot :: "vec \<Rightarrow> vec \<Rightarrow> real" where
  "dot (a1, a2, a3) (b1, b2, b3) = a1 * b1 + a2 * b2 + a3 * b3"

definition length_squared :: "vec \<Rightarrow> real" where
  "length_squared v = dot v v"

text \<open>\<^verbatim>\<open>np.linalg.norm\<close> and \<^verbatim>\<open>Vector.length\<close>.\<close>

definition norm_vec :: "vec \<Rightarrow> real" where
  "norm_vec v = sqrt (length_squared v)"

text \<open>\<^verbatim>\<open>Vector.normalized()\<close> does not raise on the zero vector: it returns the zero
  vector.\<close>

definition normalized :: "vec \<Rightarrow> vec" where
  "normalized v = (if norm_vec v = 0 then (0, 0, 0) else sdiv v (norm_vec v))"

subsection \<open>Colours (\<^verbatim>\<open>numpy\<close> arrays of three floats)\<close>

type_synonym np_float = "real option"

type_synonym color = "np_float \<times> np_float \<times> np_float"

fun np_add :: "np_float \<Rightarrow> np_float \<Rightarrow> np_float" where
  "np_add (Some x) (Some y) = Some (x + y)"
| "np_add _ _ = None"

fun np_mul :: "np_float \<Rightarrow> np_float \<Rightarrow> np_float" where
  "np_mul (Some x) (Some y) = Some (x * y)"
| "np_mul _ _ = None"

text \<open>A numpy float over a Python float: \<^verbatim>\<open>inf\<close> or \<^verbatim>\<open>nan\<close> when the divisor is zero.\<close>

fun np_div :: "np_float \<Rightarrow> real \<Rightarrow> np_float" where
  "np_div (Some x) k = (if k = 0 then None else Some (x / k))"
| "np_div None k = None"

text \<open>\<^verbatim>\<open>np.zeros(3)\<close> and \<^verbatim>\<open>np.array(v)\<close> of a vector.\<close>

definition zeros :: color where
  "zeros = (Some 0, Some 0, Some 0)"

fun np_array :: "vec \<Rightarrow> color" where
  "np_array (a1, a2, a3) = (Some a1, Some a2, Some a3)"

text \<open>Sum, componentwise product, scalar times array and array over scalar.\<close>

fun cadd :: "color \<Rightarrow> color \<Rightarrow> color" where
  "cadd (a1, a2, a3) (b1, b2, b3) = (np_add a1 b1, np_add a2 b2, np_add a3 b3)"

fun cmul :: "color \<Rightarrow> color \<Rightarrow> color" where
  "cmul (a1, a2, a3) (b1, b2, b3) = (np_mul a1 b1, np_mul a2 b2, np_mul a3 b3)"

fun cscale :: "np_float \<Rightarrow> color \<Rightarrow> color" where
  "cscale k (a1, a2, a3) = (np_mul k a1, np_mul k a2, np_mul k a3)"

fun cdiv :: "color \<Rightarrow> real \<Rightarrow> color" where
  "cdiv (a1, a2, a3) k = (np_div a1 k, np_div a2 k, np_div a3 k)"

text \<open>A component is non-negative when it is a number and at least zero.\<close>

fun np_nonneg :: "np_float \<Rightarrow> bool" where
  "np_nonneg (Some x) \<longleftrightarrow> 0 \<le> x"
| "np_nonneg None \<longleftrightarrow> False"

fun nonneg :: "color \<Rightarrow> bool" where
  "nonneg (a1, a2, a3) \<longleftrightarrow> np_nonneg a1 \<and> np_nonneg a2 \<and> np_nonneg a3"

text \<open>\<^verbatim>\<open>x ** y\<close> on numpy floats: an integer exponent is repeated multiplication (or its
  inverse), any other exponent needs a positive base, or base zero with a positive
  exponent. Elsewhere the result is \<^verbatim>\<open>nan\<close> or \<^verbatim>\<open>inf\<close>.\<close>

definition float_pow :: "real \<Rightarrow> real \<Rightarrow> np_float" where
  "float_pow x y =
     (if of_int \<lfloor>y\<rfloor> = y then
        (if 0 \<le> y then Some (x ^ nat \<lfloor>y\<rfloor>)
         else if x = 0 then None
         else Some (1 / x ^ nat \<lfloor>- y\<rfloor>))
      else if 0 < x then Some (x powr y)
      else if x = 0 \<and> 0 < y then Some 0
      else None)"

subsection \<open>The scene: materials, objects, the intersection oracle\<close>

text \<open>\<^verbatim>\<open>hit_obj.simpleRT_material\<close>. The two colours are the \<^verbatim>\<open>.xyz\<close> parts the source
  extracts.\<close>

record material =
  diffuse_color :: vec
  specular_color :: vec
  specular_hardness :: real
  mirror_reflectivity :: real
  use_fresnel :: bool
  ior :: real
  transmission :: real

text \<open>A Blender object as the tracer reads it: its type, its location and, for a light,
  \<^verbatim>\<open>data.simpleRT_light.color\<close> and \<^verbatim>\<open>data.simpleRT_light.energy\<close>.\<close>

record bpy_object =
  obj_type :: string
  location :: vec
  simpleRT_light_color :: vec
  simpleRT_light_energy :: real

text \<open>What \<^verbatim>\<open>ray_cast\<close> returns, without the two components the source discards.\<close>

record hit =
  has_hit :: bool
  hit_location :: vec
  hit_normal :: vec
  hit_object :: material

text \<open>The camera. \<^verbatim>\<open>rotation_euler\<close> is represented by its action on a vector
  (\<^verbatim>\<open>Vector.rotate\<close>).\<close>

record camera =
  cam_location :: vec
  rotation_euler :: "vec \<Rightarrow> vec"
  lens :: real
  sensor_width :: real

record scene =
  ray_cast :: "vec \<Rightarrow> vec \<Rightarrow> hit"
  ambient_color :: vec
  objects :: "bpy_object list"
  scene_camera :: camera

subsection \<open>\<^verbatim>\<open>RT_trace_ray\<close>\<close>

text \<open>Line 88.\<close>

definition eps :: real where
  "eps = 1 / 1000"

text \<open>Lines 93 to 96: the normal is flipped when it faces away from the ray origin, and
  the flag \<^verbatim>\<open>ray_inside_object\<close> records it.\<close>

definition flip_normal :: "vec \<Rightarrow> vec \<Rightarrow> vec \<times> bool" where
  "flip_normal hit_norm ray_dir =
     (if dot hit_norm ray_dir > 0 then (vneg hit_norm, True) else (hit_norm, False))"

text \<open>Lines 117 to 206: the body of the loop over the lights. The loop state is the
  accumulated colour and the flag \<^verbatim>\<open>no_light_hit\<close>. The first component of the result is
  the shadow ray, which is cast in every iteration. Line 186 is a numpy division, line 198
  a mathutils division, line 202 a numpy power.\<close>

definition shade_light ::
  "scene \<Rightarrow> vec \<Rightarrow> vec \<Rightarrow> vec \<Rightarrow> material \<Rightarrow> bpy_object \<Rightarrow> color \<times> bool
     \<Rightarrow> ray \<times> (error + color \<times> bool)" where
  "shade_light scene ray_dir hit_loc hit_norm mat light st =
     (let (color, no_light_hit) = st;
          light_color =
            np_array (smul (simpleRT_light_energy light) (simpleRT_light_color light));
          light_vec = vsub (location light) hit_loc;
          light_dir = normalized light_vec;
          new_orig = vadd hit_loc (smul eps light_dir);
          has_light_hit = has_hit (ray_cast scene new_orig light_dir)
      in ((new_orig, light_dir),
          if has_light_hit then Inr (color, no_light_hit)
          else
            let I_light = cdiv light_color (length_squared light_vec);
                diffuse_component =
                  cscale (Some (dot light_dir hit_norm))
                    (cmul (np_array (diffuse_color mat)) I_light);
                color = cadd color diffuse_component;
                half_vector = vadd light_dir (vneg ray_dir)
            in if norm_vec half_vector = 0 then Inl ZeroDivisionError
               else
                 let half_vector = sdiv half_vector (norm_vec half_vector);
                     power = specular_hardness mat;
                     specular_component =
                       cscale (float_pow (dot hit_norm half_vector) power)
                         (cmul (np_array (specular_color mat)) I_light)
                 in Inr (cadd color specular_component, False)))"

text \<open>Line 116: the loop. An error ends it.\<close>

fun shade_lights ::
  "scene \<Rightarrow> vec \<Rightarrow> vec \<Rightarrow> vec \<Rightarrow> material \<Rightarrow> bpy_object list \<Rightarrow> color \<times> bool
     \<Rightarrow> ray list \<times> (error + color \<times> bool)" where
  "shade_lights scene ray_dir hit_loc hit_norm mat [] st = ([], Inr st)"
| "shade_lights scene ray_dir hit_loc hit_norm mat (light # lights) st =
     (case shade_light scene ray_dir hit_loc hit_norm mat light st of
        (r, Inl e) \<Rightarrow> ([r], Inl e)
      | (r, Inr st') \<Rightarrow>
          (case shade_lights scene ray_dir hit_loc hit_norm mat lights st' of
             (rs, res) \<Rightarrow> (r # rs, res)))"

text \<open>Lines 132 to 139: the shadow ray towards a light, as \<open>shade_light\<close> casts it.\<close>

definition shadow_ray :: "vec \<Rightarrow> bpy_object \<Rightarrow> ray" where
  "shadow_ray hit_loc light =
     (let light_dir = normalized (vsub (location light) hit_loc)
      in (vadd hit_loc (smul eps light_dir), light_dir))"

text \<open>Lines 231 to 241: the reflectivity \<^verbatim>\<open>k_r\<close>, by Schlick's approximation when the
  material asks for it.\<close>

definition reflectivity_of :: "material \<Rightarrow> vec \<Rightarrow> vec \<Rightarrow> error + real" where
  "reflectivity_of mat ray_dir hit_norm =
     (if use_fresnel mat then
        (if 1 + ior mat = 0 then Inl ZeroDivisionError
         else
           let R_0 = ((1 - ior mat) / (1 + ior mat)) ^ 2;
               theta = \<bar>dot ray_dir hit_norm\<bar>
           in Inr (R_0 + (1 - R_0) * (1 - theta) ^ 5))
      else Inr (mirror_reflectivity mat))"

text \<open>Line 257.\<close>

definition D_reflect :: "vec \<Rightarrow> vec \<Rightarrow> vec" where
  "D_reflect ray_dir hit_norm = vsub ray_dir (smul (2 * dot ray_dir hit_norm) hit_norm)"

text \<open>Lines 283 and 284: the pair of refraction indices and their ratio.\<close>

definition refraction_indices :: "material \<Rightarrow> bool \<Rightarrow> real \<times> real" where
  "refraction_indices mat ray_inside_object =
     (if ray_inside_object then (ior mat, 1) else (1, ior mat))"

definition n_ratio_of :: "material \<Rightarrow> bool \<Rightarrow> error + real" where
  "n_ratio_of mat ray_inside_object =
     (let (n1, n2) = refraction_indices mat ray_inside_object
      in if n2 = 0 then Inl ZeroDivisionError else Inr (n1 / n2))"

text \<open>Lines 285 and 286.\<close>

definition cos_theta_i :: "vec \<Rightarrow> vec \<Rightarrow> real" where
  "cos_theta_i ray_dir hit_norm = - dot hit_norm ray_dir"

definition cos_theta_t2 :: "real \<Rightarrow> vec \<Rightarrow> vec \<Rightarrow> real" where
  "cos_theta_t2 n_ratio ray_dir hit_norm =
     1 - n_ratio ^ 2 * (1 - (cos_theta_i ray_dir hit_norm) ^ 2)"

text \<open>Line 288.\<close>

definition D_transmit :: "real \<Rightarrow> vec \<Rightarrow> vec \<Rightarrow> vec" where
  "D_transmit n_ratio ray_dir hit_norm =
     vadd (smul n_ratio ray_dir)
          (smul (n_ratio * cos_theta_i ray_dir hit_norm
                   - sqrt (cos_theta_t2 n_ratio ray_dir hit_norm)) hit_norm)"

text \<open>
  The function itself, in three parts that call each other. \<open>RT_trace_ray\<close> is lines 77 to
  96: the primary cast, the no-hit return and the orientation of the normal.
  \<open>RT_trace_ray_shade\<close> is lines 98 to 267 and 296: everything that is computed from the
  oriented normal. \<open>RT_trace_ray_transmit\<close> is lines 282 to 290, the transmission branch,
  which sits inside \<^verbatim>\<open>if depth > 0\<close>; it takes the colour accumulated so far and returns
  the colour after the branch. The depth is a Python integer.
\<close>

function
  RT_trace_ray ::
    "scene \<Rightarrow> vec \<Rightarrow> vec \<Rightarrow> bpy_object list \<Rightarrow> int \<Rightarrow> ray list \<times> (error + color)"
and
  RT_trace_ray_shade ::
    "scene \<Rightarrow> vec \<Rightarrow> vec \<Rightarrow> vec \<Rightarrow> bool \<Rightarrow> material \<Rightarrow> bpy_object list \<Rightarrow> int \<Rightarrow> color
       \<Rightarrow> ray list \<times> (error + color)"
and
  RT_trace_ray_transmit ::
    "scene \<Rightarrow> vec \<Rightarrow> vec \<Rightarrow> vec \<Rightarrow> bool \<Rightarrow> material \<Rightarrow> bpy_object list \<Rightarrow> int \<Rightarrow> real
       \<Rightarrow> color \<Rightarrow> ray list \<times> (error + color)"
where
  "RT_trace_ray scene ray_orig ray_dir lights depth =
     (let h = ray_cast scene ray_orig ray_dir;
          color = zeros
      in if \<not> has_hit h then ([(ray_orig, ray_dir)], Inr color)
         else
           case flip_normal (hit_normal h) ray_dir of
             (hit_norm, ray_inside_object) \<Rightarrow>
               (case RT_trace_ray_shade scene ray_dir (hit_location h) hit_norm
                       ray_inside_object (hit_object h) lights depth color of
                  (rays, res) \<Rightarrow> ((ray_orig, ray_dir) # rays, res)))"
| "RT_trace_ray_shade scene ray_dir hit_loc hit_norm ray_inside_object mat lights depth
       color0 =
     (case shade_lights scene ray_dir hit_loc hit_norm mat lights (color0, True) of
        (srays, Inl e) \<Rightarrow> (srays, Inl e)
      | (srays, Inr (color, no_light_hit)) \<Rightarrow>
          if no_light_hit then
            (srays,
             Inr (cadd color (np_array (vmul (diffuse_color mat) (ambient_color scene)))))
          else
            (case reflectivity_of mat ray_dir hit_norm of
               Inl e \<Rightarrow> (srays, Inl e)
             | Inr reflectivity \<Rightarrow>
                 if depth > 0 then
                   (let D_r = D_reflect ray_dir hit_norm in
                    case RT_trace_ray scene (vadd hit_loc (smul eps D_r)) D_r lights
                           (depth - 1) of
                      (rrays, Inl e) \<Rightarrow> (srays @ rrays, Inl e)
                    | (rrays, Inr reflect_color) \<Rightarrow>
                        (let color = cadd color (cscale (Some reflectivity) reflect_color) in
                         case RT_trace_ray_transmit scene ray_dir hit_loc hit_norm
                                ray_inside_object mat lights depth reflectivity color of
                           (trays, res) \<Rightarrow> (srays @ rrays @ trays, res)))
                 else (srays, Inr color)))"
| "RT_trace_ray_transmit scene ray_dir hit_loc hit_norm ray_inside_object mat lights depth
       reflectivity color =
     (if transmission mat > 0 then
        (case n_ratio_of mat ray_inside_object of
           Inl e \<Rightarrow> ([], Inl e)
         | Inr n_ratio \<Rightarrow>
             if cos_theta_t2 n_ratio ray_dir hit_norm \<ge> 0 then
               (let D_t = D_transmit n_ratio ray_dir hit_norm in
                case RT_trace_ray scene (vadd hit_loc (smul eps D_t)) D_t lights
                       (depth - 1) of
                  (trays, Inl e) \<Rightarrow> (trays, Inl e)
                | (trays, Inr transmit_color) \<Rightarrow>
                    (trays,
                     Inr (cadd color
                            (cscale (Some ((1 - reflectivity) * transmission mat))
                               transmit_color))))
             else ([], Inr color))
      else ([], Inr color))"
  by pat_completeness auto
termination
  by (relation "measure (\<lambda>x. case x of
        Inl (scene, ray_orig, ray_dir, lights, depth) \<Rightarrow> 3 * nat depth + 2
      | Inr (Inl (scene, ray_dir, hit_loc, hit_norm, inside, mat, lights, depth, color))
          \<Rightarrow> 3 * nat depth + 1
      | Inr (Inr (scene, ray_dir, hit_loc, hit_norm, inside, mat, lights, depth, k_r, color))
          \<Rightarrow> 3 * nat (depth - 1) + 3)") auto

declare RT_trace_ray.simps [simp del]
declare RT_trace_ray_shade.simps [simp del]
declare RT_trace_ray_transmit.simps [simp del]

text \<open>
  The calls of the three parts, as the definition records them: \<open>calls callee caller\<close> holds
  when the body of \<open>caller\<close> reaches a call of \<open>callee\<close>, and \<open>terminates call\<close> when the
  recursion that starts at \<open>call\<close> is well-founded.
\<close>

abbreviation Trace_call ::
  "scene \<Rightarrow> vec \<Rightarrow> vec \<Rightarrow> bpy_object list \<Rightarrow> int \<Rightarrow> _" where
  "Trace_call scene ray_orig ray_dir lights depth \<equiv>
     Inl (scene, ray_orig, ray_dir, lights, depth)"

abbreviation Shade_call ::
  "scene \<Rightarrow> vec \<Rightarrow> vec \<Rightarrow> vec \<Rightarrow> bool \<Rightarrow> material \<Rightarrow> bpy_object list \<Rightarrow> int \<Rightarrow> color
     \<Rightarrow> _" where
  "Shade_call scene ray_dir hit_loc hit_norm inside mat lights depth color \<equiv>
     Inr (Inl (scene, ray_dir, hit_loc, hit_norm, inside, mat, lights, depth, color))"

abbreviation Transmit_call ::
  "scene \<Rightarrow> vec \<Rightarrow> vec \<Rightarrow> vec \<Rightarrow> bool \<Rightarrow> material \<Rightarrow> bpy_object list \<Rightarrow> int \<Rightarrow> real
     \<Rightarrow> color \<Rightarrow> _" where
  "Transmit_call scene ray_dir hit_loc hit_norm inside mat lights depth k_r color \<equiv>
     Inr (Inr (scene, ray_dir, hit_loc, hit_norm, inside, mat, lights, depth, k_r, color))"

abbreviation calls where
  "calls callee caller \<equiv>
     RT_trace_ray_RT_trace_ray_shade_RT_trace_ray_transmit_rel callee caller"

abbreviation terminates where
  "terminates call \<equiv> RT_trace_ray_RT_trace_ray_shade_RT_trace_ray_transmit_dom call"

subsection \<open>\<^verbatim>\<open>RT_render_scene\<close>\<close>

text \<open>The pixel buffer, a numpy array of shape (height, width, 4): its first two dimensions
  and the four floats of every pixel. An index outside the shape raises \<^verbatim>\<open>IndexError\<close>.\<close>

type_synonym rgba = "np_float \<times> np_float \<times> np_float \<times> np_float"

record ndarray =
  shape0 :: nat
  shape1 :: nat
  px :: "nat \<times> nat \<Rightarrow> rgba"

text \<open>Line 346, \<^verbatim>\<open>buf[y, x, 0:3] = c\<close>, and line 351, \<^verbatim>\<open>buf[y, x, 3] = a\<close>.\<close>

definition set_rgb :: "ndarray \<Rightarrow> nat \<Rightarrow> nat \<Rightarrow> color \<Rightarrow> error + ndarray" where
  "set_rgb buf y x c =
     (if y < shape0 buf \<and> x < shape1 buf then
        (case (c, px buf (y, x)) of
           ((r, g, b), (_, _, _, a)) \<Rightarrow> Inr (buf\<lparr>px := (px buf)((y, x) := (r, g, b, a))\<rparr>))
      else Inl IndexError)"

definition set_alpha :: "ndarray \<Rightarrow> nat \<Rightarrow> nat \<Rightarrow> np_float \<Rightarrow> error + ndarray" where
  "set_alpha buf y x a =
     (if y < shape0 buf \<and> x < shape1 buf then
        (case px buf (y, x) of
           (r, g, b, _) \<Rightarrow> Inr (buf\<lparr>px := (px buf)((y, x) := (r, g, b, a))\<rparr>))
      else Inl IndexError)"

text \<open>The state of a render: the buffer, the rays cast so far and the rows yielded so far.
  The generator is run to its end or to the first error; an error leaves the state as it
  was when the error occurred.\<close>

record render_state =
  buf :: ndarray
  rays_cast :: "ray list"
  yielded :: "nat list"

text \<open>Lines 340 to 344: the direction of the primary ray of pixel (x, y). Inside the two
  loops \<^verbatim>\<open>width\<close> and \<^verbatim>\<open>height\<close> are at least 1, so these divisions do not fail.\<close>

definition screen_y_of :: "int \<Rightarrow> int \<Rightarrow> nat \<Rightarrow> real" where
  "screen_y_of width height y =
     ((real y - real_of_int height / 2) / real_of_int height)
       * (real_of_int height / real_of_int width)"

definition screen_x_of :: "int \<Rightarrow> nat \<Rightarrow> real" where
  "screen_x_of width x = (real x - real_of_int width / 2) / real_of_int width"

definition pixel_ray_dir :: "camera \<Rightarrow> int \<Rightarrow> int \<Rightarrow> nat \<Rightarrow> nat \<Rightarrow> vec" where
  "pixel_ray_dir cam width height y x =
     (let focal_length = lens cam / sensor_width cam;
          screen_y = screen_y_of width height y;
          screen_x = screen_x_of width x;
          ray_dir = (screen_x, screen_y, - focal_length);
          ray_dir = rotation_euler cam ray_dir
      in normalized ray_dir)"

text \<open>Lines 339 to 351: one pixel.\<close>

definition render_pixel ::
  "scene \<Rightarrow> int \<Rightarrow> int \<Rightarrow> int \<Rightarrow> bpy_object list \<Rightarrow> nat \<Rightarrow> nat \<Rightarrow> render_state
     \<Rightarrow> render_state \<times> error option" where
  "render_pixel scene width height depth scene_lights y x st =
     (let ray_dir = pixel_ray_dir (scene_camera scene) width height y x in
      case RT_trace_ray scene (cam_location (scene_camera scene)) ray_dir scene_lights
             depth of
        (rays, res) \<Rightarrow>
          (let st = st\<lparr>rays_cast := rays_cast st @ rays\<rparr> in
           case res of
             Inl e \<Rightarrow> (st, Some e)
           | Inr c \<Rightarrow>
               (case set_rgb (buf st) y x c of
                  Inl e \<Rightarrow> (st, Some e)
                | Inr b \<Rightarrow>
                    (case set_alpha b y x (Some 1) of
                       Inl e \<Rightarrow> (st\<lparr>buf := b\<rparr>, Some e)
                     | Inr b' \<Rightarrow> (st\<lparr>buf := b'\<rparr>, None)))))"

text \<open>Line 338: the loop over the columns of row y.\<close>

fun render_row ::
  "scene \<Rightarrow> int \<Rightarrow> int \<Rightarrow> int \<Rightarrow> bpy_object list \<Rightarrow> nat \<Rightarrow> nat list \<Rightarrow> render_state
     \<Rightarrow> render_state \<times> error option" where
  "render_row scene width height depth scene_lights y [] st = (st, None)"
| "render_row scene width height depth scene_lights y (x # xs) st =
     (case render_pixel scene width height depth scene_lights y x st of
        (st', Some e) \<Rightarrow> (st', Some e)
      | (st', None) \<Rightarrow> render_row scene width height depth scene_lights y xs st')"

text \<open>Lines 335 to 352: the loop over the rows, with the \<^verbatim>\<open>yield\<close> after each row.\<close>

fun render_rows ::
  "scene \<Rightarrow> int \<Rightarrow> int \<Rightarrow> int \<Rightarrow> bpy_object list \<Rightarrow> nat list \<Rightarrow> render_state
     \<Rightarrow> render_state \<times> error option" where
  "render_rows scene width height depth scene_lights [] st = (st, None)"
| "render_rows scene width height depth scene_lights (y # ys) st =
     (case render_row scene width height depth scene_lights y [0..<nat width] st of
        (st', Some e) \<Rightarrow> (st', Some e)
      | (st', None) \<Rightarrow>
          render_rows scene width height depth scene_lights ys
            (st'\<lparr>yielded := yielded st' @ [y]\<rparr>))"

text \<open>Lines 324 to 353. The two divisions before the loops are Python divisions.\<close>

definition RT_render_scene ::
  "scene \<Rightarrow> int \<Rightarrow> int \<Rightarrow> int \<Rightarrow> ndarray \<Rightarrow> render_state \<times> error option" where
  "RT_render_scene scene width height depth buffer =
     (let scene_lights = filter (\<lambda>ob. obj_type ob = ''LIGHT'') (objects scene);
          st = \<lparr>buf = buffer, rays_cast = [], yielded = []\<rparr>
      in if sensor_width (scene_camera scene) = 0 then (st, Some ZeroDivisionError)
         else if width = 0 then (st, Some ZeroDivisionError)
         else render_rows scene width height depth scene_lights [0..<nat height] st)"

subsection \<open>A test scene\<close>

text \<open>
  A floor, the plane z = 0, seen from above, and a square patch at height 14 above the
  origin, seen from below; the patch reports its geometric normal, which points up. A lamp
  at (24, 0, 7) and a second one below the floor.
\<close>

definition no_material :: material where
  "no_material =
     \<lparr>diffuse_color = (0, 0, 0), specular_color = (0, 0, 0), specular_hardness = 0,
      mirror_reflectivity = 0, use_fresnel = False, ior = 1, transmission = 0\<rparr>"

definition miss :: hit where
  "miss =
     \<lparr>has_hit = False, hit_location = (0, 0, 0), hit_normal = (0, 0, 0),
      hit_object = no_material\<rparr>"

definition demo_cast :: "material \<Rightarrow> material \<Rightarrow> vec \<Rightarrow> vec \<Rightarrow> hit" where
  "demo_cast m_floor m_patch orig dir =
     (case (orig, dir) of
        ((ox, oy, oz), (dx, dy, dz)) \<Rightarrow>
          if 0 < oz \<and> dz < 0 then
            \<lparr>has_hit = True, hit_location = (ox - oz / dz * dx, oy - oz / dz * dy, 0),
             hit_normal = (0, 0, 1), hit_object = m_floor\<rparr>
          else if oz < 14 \<and> 0 < dz
                  \<and> \<bar>ox + (14 - oz) / dz * dx\<bar> \<le> 1 \<and> \<bar>oy + (14 - oz) / dz * dy\<bar> \<le> 1 then
            \<lparr>has_hit = True,
             hit_location = (ox + (14 - oz) / dz * dx, oy + (14 - oz) / dz * dy, 14),
             hit_normal = (0, 0, 1), hit_object = m_patch\<rparr>
          else miss)"

definition lamp :: bpy_object where
  "lamp =
     \<lparr>obj_type = ''LIGHT'', location = (24, 0, 7), simpleRT_light_color = (1, 1, 1),
      simpleRT_light_energy = 625\<rparr>"

definition low_lamp :: bpy_object where
  "low_lamp =
     \<lparr>obj_type = ''LIGHT'', location = (24, 0, - 7), simpleRT_light_color = (1, 1, 1),
      simpleRT_light_energy = 625\<rparr>"

definition demo_camera :: camera where
  "demo_camera =
     \<lparr>cam_location = (0, 0, 1), rotation_euler = (\<lambda>v. v), lens = 50, sensor_width = 50\<rparr>"

definition demo_scene :: "material \<Rightarrow> material \<Rightarrow> scene" where
  "demo_scene m_floor m_patch =
     \<lparr>ray_cast = demo_cast m_floor m_patch, ambient_color = (1 / 10, 1 / 10, 1 / 10),
      objects = [lamp], scene_camera = demo_camera\<rparr>"

definition matte :: material where
  "matte =
     \<lparr>diffuse_color = (1, 1 / 2, 1 / 4), specular_color = (0, 0, 0), specular_hardness = 1,
      mirror_reflectivity = 0, use_fresnel = False, ior = 3 / 2, transmission = 0\<rparr>"

definition shiny :: material where
  "shiny =
     \<lparr>diffuse_color = (1, 1 / 2, 1 / 4), specular_color = (1, 1, 1), specular_hardness = 2,
      mirror_reflectivity = 1 / 2, use_fresnel = False, ior = 3 / 2, transmission = 0\<rparr>"

definition glass :: material where
  "glass =
     \<lparr>diffuse_color = (1, 1 / 2, 1 / 4), specular_color = (1, 1, 1), specular_hardness = 2,
      mirror_reflectivity = 1 / 2, use_fresnel = True, ior = 4 / 3, transmission = 1 / 2\<rparr>"

definition nadir_lamp :: bpy_object where
  "nadir_lamp =
     \<lparr>obj_type = ''LIGHT'', location = (0, 0, - 7), simpleRT_light_color = (1, 1, 1),
      simpleRT_light_energy = 49\<rparr>"

definition crystal :: material where
  "crystal =
     \<lparr>diffuse_color = (1, 1 / 2, 1 / 4), specular_color = (1, 1, 1), specular_hardness = 2,
      mirror_reflectivity = 1 / 2, use_fresnel = False, ior = 4 / 3, transmission = 1 / 2\<rparr>"

definition top_lamp :: bpy_object where
  "top_lamp =
     \<lparr>obj_type = ''LIGHT'', location = (- 4, 0, 17), simpleRT_light_color = (1, 1, 1),
      simpleRT_light_energy = 25\<rparr>"

text \<open>A colour whose three components are numbers, none of them \<^verbatim>\<open>inf\<close> or \<^verbatim>\<open>nan\<close>.\<close>

fun is_finite :: "color \<Rightarrow> bool" where
  "is_finite (a1, a2, a3) \<longleftrightarrow> a1 \<noteq> None \<and> a2 \<noteq> None \<and> a3 \<noteq> None"

text \<open>A lamp on the floor, at the origin.\<close>

definition floor_lamp :: bpy_object where
  "floor_lamp =
     \<lparr>obj_type = ''LIGHT'', location = (0, 0, 0), simpleRT_light_color = (1, 1, 1),
      simpleRT_light_energy = 1\<rparr>"

section \<open>Auxiliary facts\<close>

subsection \<open>The loop over the lights\<close>

lemma fst_shade_light:
  "fst (shade_light scene ray_dir hit_loc hit_norm mat light st) = shadow_ray hit_loc light"
  by (simp add: shade_light_def shadow_ray_def Let_def split: prod.splits)

lemma shade_light_occluded:
  "has_hit (ray_cast scene (fst (shadow_ray hit_loc light)) (snd (shadow_ray hit_loc light)))
   \<Longrightarrow> shade_light scene ray_dir hit_loc hit_norm mat light st
         = (shadow_ray hit_loc light, Inr st)"
  by (simp add: shade_light_def shadow_ray_def Let_def split: prod.splits)

lemma shade_lights_all_occluded:
  "\<forall>light \<in> set lights.
      has_hit (ray_cast scene (fst (shadow_ray hit_loc light)) (snd (shadow_ray hit_loc light)))
   \<Longrightarrow> shade_lights scene ray_dir hit_loc hit_norm mat lights st
         = (map (shadow_ray hit_loc) lights, Inr st)"
  by (induction lights) (simp_all add: shade_light_occluded)

lemma shade_lights_Cons:
  "shade_lights scene ray_dir hit_loc hit_norm mat (l # ls) st =
     (case snd (shade_light scene ray_dir hit_loc hit_norm mat l st) of
        Inl e \<Rightarrow> ([shadow_ray hit_loc l], Inl e)
      | Inr st' \<Rightarrow>
          (shadow_ray hit_loc l # fst (shade_lights scene ray_dir hit_loc hit_norm mat ls st'),
           snd (shade_lights scene ray_dir hit_loc hit_norm mat ls st')))"
proof -
  obtain r res where sl: "shade_light scene ray_dir hit_loc hit_norm mat l st = (r, res)"
    by (cases "shade_light scene ray_dir hit_loc hit_norm mat l st")
  then have r: "r = shadow_ray hit_loc l"
    using fst_shade_light [of scene ray_dir hit_loc hit_norm mat l st] by simp
  show ?thesis
    by (simp add: sl r split: sum.split prod.split)
qed

lemma fst_shade_lights_ok:
  "snd (shade_lights scene ray_dir hit_loc hit_norm mat lights st) = Inr st' \<Longrightarrow>
   fst (shade_lights scene ray_dir hit_loc hit_norm mat lights st)
     = map (shadow_ray hit_loc) lights"
proof (induction lights arbitrary: st)
  case Nil
  then show ?case by simp
next
  case (Cons l ls)
  then show ?case
    by (simp only: shade_lights_Cons list.map split: sum.splits) simp_all
qed

lemma length_fst_shade_lights:
  "length (fst (shade_lights scene ray_dir hit_loc hit_norm mat lights st)) \<le> length lights"
proof (induction lights arbitrary: st)
  case Nil
  then show ?case by simp
next
  case (Cons l ls)
  then show ?case
    by (simp only: shade_lights_Cons split: sum.split) simp
qed

subsection \<open>Unfolding \<open>RT_trace_ray\<close> at a hit\<close>

lemma cadd_zeros [simp]: "cadd zeros (np_array v) = np_array v"
  by (cases v) (simp add: zeros_def)

lemma RT_trace_ray_hit:
  "has_hit (ray_cast scene ray_orig ray_dir) \<Longrightarrow>
   RT_trace_ray scene ray_orig ray_dir lights depth =
     (let h = ray_cast scene ray_orig ray_dir;
          r = RT_trace_ray_shade scene ray_dir (hit_location h)
                (fst (flip_normal (hit_normal h) ray_dir))
                (snd (flip_normal (hit_normal h) ray_dir))
                (hit_object h) lights depth zeros
      in ((ray_orig, ray_dir) # fst r, snd r))"
  by (simp add: RT_trace_ray.simps Let_def split: prod.splits)

subsection \<open>The call relation\<close>

lemma all_terminate: "terminates call"
proof -
  have "All terminates"
    by (relation "measure (\<lambda>x. case x of
        Inl (scene, ray_orig, ray_dir, lights, depth) \<Rightarrow> 3 * nat depth + 2
      | Inr (Inl (scene, ray_dir, hit_loc, hit_norm, inside, mat, lights, depth, color))
          \<Rightarrow> 3 * nat depth + 1
      | Inr (Inr (scene, ray_dir, hit_loc, hit_norm, inside, mat, lights, depth, k_r, color))
          \<Rightarrow> 3 * nat (depth - 1) + 3)") auto
  then show ?thesis by simp
qed

lemma trace_called_from:
  assumes "calls (Trace_call scene ray_orig ray_dir lights depth) caller"
  shows "(\<exists>d hl hn ins mat c0 dp.
            caller = Shade_call scene d hl hn ins mat lights dp c0 \<and> 0 < dp \<and> depth = dp - 1
            \<and> ray_dir = D_reflect d hn \<and> ray_orig = vadd hl (smul eps ray_dir))
       \<or> (\<exists>d hl hn ins mat k c dp r.
            caller = Transmit_call scene d hl hn ins mat lights dp k c \<and> depth = dp - 1
            \<and> 0 < transmission mat \<and> n_ratio_of mat ins = Inr r
            \<and> 0 \<le> cos_theta_t2 r d hn
            \<and> ray_dir = D_transmit r d hn \<and> ray_orig = vadd hl (smul eps ray_dir))"
  using assms
  by (cases rule: RT_trace_ray_RT_trace_ray_shade_RT_trace_ray_transmit_rel.cases) auto

lemma shade_called_from:
  assumes "calls (Shade_call scene ray_dir hit_loc hit_norm inside mat lights depth color)
             caller"
  shows "\<exists>ray_orig. caller = Trace_call scene ray_orig ray_dir lights depth
           \<and> has_hit (ray_cast scene ray_orig ray_dir)
           \<and> hit_loc = hit_location (ray_cast scene ray_orig ray_dir)
           \<and> mat = hit_object (ray_cast scene ray_orig ray_dir)
           \<and> (hit_norm, inside)
               = flip_normal (hit_normal (ray_cast scene ray_orig ray_dir)) ray_dir
           \<and> color = zeros"
  using assms
  by (cases rule: RT_trace_ray_RT_trace_ray_shade_RT_trace_ray_transmit_rel.cases) auto

lemma transmit_called_from:
  assumes "calls (Transmit_call scene ray_dir hit_loc hit_norm inside mat lights depth k_r
                    color) caller"
  shows "\<exists>c0. caller = Shade_call scene ray_dir hit_loc hit_norm inside mat lights depth c0
           \<and> 0 < depth \<and> reflectivity_of mat ray_dir hit_norm = Inr k_r"
  using assms
  by (cases rule: RT_trace_ray_RT_trace_ray_shade_RT_trace_ray_transmit_rel.cases) auto

lemma flip_normal_facts:
  "dot (fst (flip_normal hn d)) d \<le> 0"
  "snd (flip_normal hn d) = (dot hn d > 0)"
  "fst (flip_normal hn d) = (if dot hn d > 0 then vneg hn else hn)"
  by (cases hn; cases d; simp add: flip_normal_def; fail)+

subsection \<open>Evaluating the test scene\<close>

lemma normalized_eq:
  "0 < k \<Longrightarrow> length_squared v = k * k \<Longrightarrow> normalized v = sdiv v k"
  by (simp add: normalized_def norm_vec_def)

lemma norm_vec_eq:
  "0 \<le> k \<Longrightarrow> length_squared v = k * k \<Longrightarrow> norm_vec v = k"
  by (simp add: norm_vec_def)

lemma normalized_24_7: "normalized (- 24, 0, 7) = (- 24 / 25, 0, 7 / 25)"
  using normalized_eq [of 25 "(- 24, 0, 7)"] by (simp add: length_squared_def)

lemma demo_floor_hit_48:
  "ray_cast (demo_scene mf mp) (48, 0, 1) (0, 0, - 1)
     = \<lparr>has_hit = True, hit_location = (48, 0, 0), hit_normal = (0, 0, 1), hit_object = mf\<rparr>"
  by (simp add: demo_scene_def demo_cast_def)

subsection \<open>The three parts, written with projections\<close>

lemma RT_trace_ray_shade_unfold:
  "RT_trace_ray_shade scene ray_dir hit_loc hit_norm inside mat lights depth color0 =
     (let sl = shade_lights scene ray_dir hit_loc hit_norm mat lights (color0, True);
          srays = fst sl
      in case snd sl of
           Inl e \<Rightarrow> (srays, Inl e)
         | Inr st \<Rightarrow>
             if snd st then
               (srays,
                Inr (cadd (fst st)
                       (np_array (vmul (diffuse_color mat) (ambient_color scene)))))
             else
               (case reflectivity_of mat ray_dir hit_norm of
                  Inl e \<Rightarrow> (srays, Inl e)
                | Inr k_r \<Rightarrow>
                    if depth > 0 then
                      (let D_r = D_reflect ray_dir hit_norm;
                           rr = RT_trace_ray scene (vadd hit_loc (smul eps D_r)) D_r lights
                                  (depth - 1)
                       in case snd rr of
                            Inl e \<Rightarrow> (srays @ fst rr, Inl e)
                          | Inr reflect_color \<Rightarrow>
                              (let tr = RT_trace_ray_transmit scene ray_dir hit_loc hit_norm
                                          inside mat lights depth k_r
                                          (cadd (fst st)
                                             (cscale (Some k_r) reflect_color))
                               in (srays @ fst rr @ fst tr, snd tr)))
                    else (srays, Inr (fst st))))"
  by (subst RT_trace_ray_shade.simps)
     (simp add: Let_def split: prod.splits sum.splits)

lemma RT_trace_ray_transmit_unfold:
  "RT_trace_ray_transmit scene ray_dir hit_loc hit_norm inside mat lights depth k_r color =
     (if transmission mat > 0 then
        (case n_ratio_of mat inside of
           Inl e \<Rightarrow> ([], Inl e)
         | Inr n_ratio \<Rightarrow>
             if cos_theta_t2 n_ratio ray_dir hit_norm \<ge> 0 then
               (let D_t = D_transmit n_ratio ray_dir hit_norm;
                    tr = RT_trace_ray scene (vadd hit_loc (smul eps D_t)) D_t lights
                           (depth - 1)
                in (fst tr,
                    case snd tr of
                      Inl e \<Rightarrow> Inl e
                    | Inr transmit_color \<Rightarrow>
                        Inr (cadd color
                               (cscale (Some ((1 - k_r) * transmission mat))
                                  transmit_color))))
             else ([], Inr color))
      else ([], Inr color))"
  by (subst RT_trace_ray_transmit.simps)
     (simp add: Let_def split: prod.splits sum.splits)

lemma RT_trace_ray_unfold:
  "RT_trace_ray scene ray_orig ray_dir lights depth =
     (let h = ray_cast scene ray_orig ray_dir in
      if \<not> has_hit h then ([(ray_orig, ray_dir)], Inr zeros)
      else
        let r = RT_trace_ray_shade scene ray_dir (hit_location h)
                  (fst (flip_normal (hit_normal h) ray_dir))
                  (snd (flip_normal (hit_normal h) ray_dir))
                  (hit_object h) lights depth zeros
        in ((ray_orig, ray_dir) # fst r, snd r))"
  by (subst RT_trace_ray.simps) (simp add: Let_def split: prod.splits)

subsection \<open>The number of rays cast\<close>

lemma length_transmit_le:
  assumes IH: "\<And>o' d'. length (fst (RT_trace_ray scene o' d' lights (depth - 1))) + N \<le> B"
    and base: "N \<le> (B :: nat)"
  shows "length (fst (RT_trace_ray_transmit scene d hl hn ins m lights depth k c)) + N \<le> B"
proof (cases "n_ratio_of m ins")
  case (Inl e)
  then show ?thesis using base by (simp add: RT_trace_ray_transmit_unfold)
next
  case (Inr r)
  then show ?thesis
    using base IH [of "vadd hl (smul eps (D_transmit r d hn))" "D_transmit r d hn"]
    by (simp add: RT_trace_ray_transmit_unfold Let_def)
qed

lemma length_shade_le:
  assumes IH: "\<And>o' d'. length (fst (RT_trace_ray scene o' d' lights (depth - 1))) + N \<le> B"
    and base: "N \<le> (B :: nat)" and N: "N = 1 + length lights" and depth: "0 < depth"
  shows "length (fst (RT_trace_ray_shade scene d hl hn ins m lights depth c)) + N + 1 \<le> 2 * B"
proof -
  let ?sl = "shade_lights scene d hl hn m lights (c, True)"
  let ?rr = "RT_trace_ray scene (vadd hl (smul eps (D_reflect d hn))) (D_reflect d hn) lights
               (depth - 1)"
  have a: "length (fst ?sl) + 1 \<le> N"
    using length_fst_shade_lights [of scene d hl hn m lights "(c, True)"] N by simp
  have r: "length (fst ?rr) + N \<le> B" by (rule IH)
  have t: "\<And>k c'. length (fst (RT_trace_ray_transmit scene d hl hn ins m lights depth k c'))
              + N \<le> B"
    using IH base by (rule length_transmit_le)
  show ?thesis
  proof (cases "snd ?sl")
    case (Inl e)
    then show ?thesis using a base by (simp add: RT_trace_ray_shade_unfold Let_def)
  next
    case st: (Inr st)
    show ?thesis
    proof (cases "reflectivity_of m d hn")
      case (Inl e)
      then show ?thesis using a base st by (simp add: RT_trace_ray_shade_unfold Let_def)
    next
      case kr: (Inr k_r)
      show ?thesis
      proof (cases "snd ?rr")
        case (Inl e)
        then show ?thesis
          using a base st kr r depth by (simp add: RT_trace_ray_shade_unfold Let_def)
      next
        case (Inr rc)
        then show ?thesis
          using a base st kr r depth t [of k_r "cadd (fst st) (cscale (Some k_r) rc)"]
          by (simp add: RT_trace_ray_shade_unfold Let_def)
      qed
    qed
  qed
qed

lemma length_shade_depth_0:
  assumes "\<not> 0 < depth"
  shows "length (fst (RT_trace_ray_shade scene d hl hn ins m lights depth c)) \<le> length lights"
  using length_fst_shade_lights [of scene d hl hn m lights "(c, True)"] assms
  by (simp add: RT_trace_ray_shade_unfold Let_def split: sum.split)

lemma rays_bound_aux:
  "nat depth \<le> n \<Longrightarrow>
     length (fst (RT_trace_ray scene ray_orig ray_dir lights depth)) + (1 + length lights)
       \<le> 2 ^ (nat depth + 1) * (1 + length lights)"
proof (induction n arbitrary: depth ray_orig ray_dir)
  case 0
  then have d: "\<not> depth > 0" "nat depth = 0" by simp_all
  show ?case
    using length_shade_depth_0 [OF d(1), of scene ray_dir _ _ _ _ lights zeros] d(2)
    by (simp add: RT_trace_ray_unfold Let_def)
next
  case (Suc n)
  show ?case
  proof (cases "depth > 0")
    case False
    then have d: "nat depth = 0" by simp
    show ?thesis
      using length_shade_depth_0 [OF False, of scene ray_dir _ _ _ _ lights zeros] d
      by (simp add: RT_trace_ray_unfold Let_def)
  next
    case True
    define N where "N = 1 + length lights"
    define B where "B = 2 ^ (nat (depth - 1) + 1) * N"
    have n: "nat (depth - 1) \<le> n" and nd: "nat depth = Suc (nat (depth - 1))"
      using Suc.prems True by auto
    have IH: "\<And>o' d'. length (fst (RT_trace_ray scene o' d' lights (depth - 1))) + N \<le> B"
      unfolding N_def B_def using Suc.IH [OF n] .
    have base: "N \<le> B"
      unfolding B_def by simp
    have sh: "length (fst (RT_trace_ray_shade scene ray_dir hl hn ins m lights depth c)) + N + 1
                \<le> 2 * B" for hl hn ins m c
      using IH base N_def True by (rule length_shade_le)
    have goal: "2 ^ (nat depth + 1) * (1 + length lights) = 2 * B"
      unfolding B_def N_def nd by simp
    have N1: "1 \<le> N"
      unfolding N_def by simp
    have "length (fst (RT_trace_ray scene ray_orig ray_dir lights depth)) + N \<le> 2 * B"
      using sh base N1 by (simp add: RT_trace_ray_unfold Let_def)
    then show ?thesis
      unfolding goal unfolding N_def .
  qed
qed

lemma rays_bound:
  "length (fst (RT_trace_ray scene ray_orig ray_dir lights depth))
     \<le> (2 ^ (nat depth + 1) - 1) * (1 + length lights)"
proof -
  have "length (fst (RT_trace_ray scene ray_orig ray_dir lights depth)) + (1 + length lights)
       \<le> 2 ^ (nat depth + 1) * (1 + length lights)"
    using rays_bound_aux [of depth "nat depth"] by simp
  moreover have "(2::nat) ^ (nat depth + 1) = (2 ^ (nat depth + 1) - 1) + 1"
    by simp
  then have "2 ^ (nat depth + 1) * (1 + length lights)
      = (2 ^ (nat depth + 1) - 1) * (1 + length lights) + (1 + length lights)"
    by (metis add_mult_distrib mult_1)
  ultimately show ?thesis by linarith
qed

subsection \<open>The test scene, lit from the lamp\<close>

lemma demo_floor_hit_0:
  "ray_cast (demo_scene mf mp) (0, 0, 1) (0, 0, - 1)
     = \<lparr>has_hit = True, hit_location = (0, 0, 0), hit_normal = (0, 0, 1), hit_object = mf\<rparr>"
  by (simp add: demo_scene_def demo_cast_def)

lemma normalized_lamp_0: "normalized (24, 0, 7) = (24 / 25, 0, 7 / 25)"
  using normalized_eq [of 25 "(24, 0, 7)"] by (simp add: length_squared_def)

lemma norm_vec_half_0: "norm_vec (24 / 25, 0, 32 / 25) = 8 / 5"
  using norm_vec_eq [of "8 / 5" "(24 / 25, 0, 32 / 25)"]
  by (simp add: length_squared_def power2_eq_square)

lemma demo_shade_light_0:
  "shade_light (demo_scene mf mp) (0, 0, - 1) (0, 0, 0) (0, 0, 1) shiny lamp (zeros, True)
     = (((24 / 25000, 0, 7 / 25000), (24 / 25, 0, 7 / 25)),
        Inr ((Some (23 / 25), Some (39 / 50), Some (71 / 100)), False))"
  by (simp add: shade_light_def lamp_def normalized_lamp_0 eps_def demo_scene_def demo_cast_def
        miss_def length_squared_def norm_vec_half_0 shiny_def float_pow_def Let_def
        power2_eq_square zeros_def)

lemma reflectivity_shiny: "reflectivity_of shiny d n = Inr (1 / 2)"
  by (simp add: reflectivity_of_def shiny_def)

lemma demo_flip_0: "flip_normal (0, 0, 1) (0, 0, - 1) = ((0, 0, 1), False)"
  by (simp add: flip_normal_def)

subsection \<open>The loop over the lights: which lights it reaches\<close>

lemma length_squared_eq_0_iff: "length_squared v = 0 \<longleftrightarrow> v = (0, 0, 0)"
proof (cases v)
  case (fields a b c)
  have "a * a + b * b + c * c = 0 \<longleftrightarrow> a = 0 \<and> b = 0 \<and> c = 0"
    by (metis add_nonneg_eq_0_iff mult_eq_0_iff zero_le_square add_nonneg_nonneg)
  then show ?thesis using fields by (simp add: length_squared_def)
qed

lemma norm_vec_eq_0_iff: "norm_vec v = 0 \<longleftrightarrow> v = (0, 0, 0)"
  by (simp add: norm_vec_def length_squared_eq_0_iff)

lemma vsub_eq_0_iff: "vsub a b = (0, 0, 0) \<longleftrightarrow> a = b"
  by (cases a; cases b) simp

lemma half_vector_eq_0_iff: "norm_vec (vadd a (vneg b)) = 0 \<longleftrightarrow> a = b"
  by (cases a; cases b) (simp add: norm_vec_eq_0_iff)

text \<open>What one iteration does, by the two tests that decide it.\<close>

lemma shade_light_raises:
  "\<not> has_hit (ray_cast scene (fst (shadow_ray hit_loc light)) (snd (shadow_ray hit_loc light)))
   \<Longrightarrow> snd (shadow_ray hit_loc light) = ray_dir
   \<Longrightarrow> shade_light scene ray_dir hit_loc hit_norm mat light st
         = (shadow_ray hit_loc light, Inl ZeroDivisionError)"
  by (simp add: shade_light_def shadow_ray_def Let_def half_vector_eq_0_iff split: prod.splits)

lemma shade_light_no_raise_aux:
  "has_hit (ray_cast scene (fst (shadow_ray hit_loc light)) (snd (shadow_ray hit_loc light)))
     \<or> snd (shadow_ray hit_loc light) \<noteq> ray_dir
   \<Longrightarrow> snd (shade_light scene ray_dir hit_loc hit_norm mat light st) \<noteq> Inl e"
  by (auto simp add: shade_light_def shadow_ray_def Let_def half_vector_eq_0_iff
        split: prod.splits)

lemma shade_light_no_raise:
  assumes "has_hit (ray_cast scene (fst (shadow_ray hit_loc light))
                      (snd (shadow_ray hit_loc light)))
             \<or> snd (shadow_ray hit_loc light) \<noteq> ray_dir"
  shows "\<exists>st'. snd (shade_light scene ray_dir hit_loc hit_norm mat light st) = Inr st'"
proof (cases "snd (shade_light scene ray_dir hit_loc hit_norm mat light st)")
  case (Inl e)
  then show ?thesis using shade_light_no_raise_aux [OF assms] by blast
next
  case (Inr st')
  then show ?thesis by blast
qed

lemma shade_lights_no_raise:
  "\<forall>l \<in> set lights.
      has_hit (ray_cast scene (fst (shadow_ray hit_loc l)) (snd (shadow_ray hit_loc l)))
      \<or> snd (shadow_ray hit_loc l) \<noteq> ray_dir
   \<Longrightarrow> \<exists>st'. shade_lights scene ray_dir hit_loc hit_norm mat lights st
               = (map (shadow_ray hit_loc) lights, Inr st')"
proof (induction lights arbitrary: st)
  case Nil
  then show ?case by simp
next
  case (Cons l ls)
  from Cons.prems obtain st1
    where s1: "snd (shade_light scene ray_dir hit_loc hit_norm mat l st) = Inr st1"
    using shade_light_no_raise [of scene hit_loc l ray_dir hit_norm mat st] by auto
  from Cons.prems Cons.IH [of st1] obtain st2
    where s2: "shade_lights scene ray_dir hit_loc hit_norm mat ls st1
                 = (map (shadow_ray hit_loc) ls, Inr st2)"
    by auto
  show ?case
    by (simp only: shade_lights_Cons s1 s2 sum.case fst_conv snd_conv list.map) blast
qed

lemma shade_lights_append:
  "shade_lights scene ray_dir hit_loc hit_norm mat (xs @ ys) st =
     (case snd (shade_lights scene ray_dir hit_loc hit_norm mat xs st) of
        Inl e \<Rightarrow> shade_lights scene ray_dir hit_loc hit_norm mat xs st
      | Inr st' \<Rightarrow>
          (fst (shade_lights scene ray_dir hit_loc hit_norm mat xs st)
             @ fst (shade_lights scene ray_dir hit_loc hit_norm mat ys st'),
           snd (shade_lights scene ray_dir hit_loc hit_norm mat ys st')))"
proof (induction xs arbitrary: st)
  case Nil
  then show ?case by simp
next
  case (Cons x xs)
  show ?case
    by (simp only: append_Cons shade_lights_Cons Cons.IH split: sum.split)
       (simp split: sum.split add: prod_eq_iff)
qed

lemma shade_lights_first_raise:
  assumes "\<forall>l \<in> set pre.
      has_hit (ray_cast scene (fst (shadow_ray hit_loc l)) (snd (shadow_ray hit_loc l)))
      \<or> snd (shadow_ray hit_loc l) \<noteq> ray_dir"
    and "\<not> has_hit (ray_cast scene (fst (shadow_ray hit_loc light))
                      (snd (shadow_ray hit_loc light)))"
    and "snd (shadow_ray hit_loc light) = ray_dir"
  shows "shade_lights scene ray_dir hit_loc hit_norm mat (pre @ light # post) st
           = (map (shadow_ray hit_loc) (pre @ [light]), Inl ZeroDivisionError)"
proof -
  from shade_lights_no_raise [OF assms(1)] obtain st'
    where p: "shade_lights scene ray_dir hit_loc hit_norm mat pre st
                = (map (shadow_ray hit_loc) pre, Inr st')"
    by blast
  have l: "shade_lights scene ray_dir hit_loc hit_norm mat (light # post) st'
             = ([shadow_ray hit_loc light], Inl ZeroDivisionError)"
    by (simp only: shade_lights_Cons shade_light_raises [OF assms(2,3)] snd_conv sum.case)
  show ?thesis
    by (simp only: shade_lights_append p l snd_conv fst_conv sum.case map_append list.map)
qed

lemma shade_lights_filter:
  "snd (shade_lights scene ray_dir hit_loc hit_norm mat lights st) =
   snd (shade_lights scene ray_dir hit_loc hit_norm mat
          (filter (\<lambda>l. \<not> has_hit (ray_cast scene (fst (shadow_ray hit_loc l))
                                      (snd (shadow_ray hit_loc l)))) lights) st)"
proof (induction lights arbitrary: st)
  case Nil
  then show ?case by simp
next
  case (Cons l ls)
  show ?case
  proof (cases "has_hit (ray_cast scene (fst (shadow_ray hit_loc l))
                           (snd (shadow_ray hit_loc l)))")
    case True
    then show ?thesis
      using Cons.IH [of st]
      by (simp only: shade_lights_Cons shade_light_occluded filter.simps snd_conv sum.case
            simp_thms if_False)
  next
    case False
    then show ?thesis
      using Cons.IH
      by (simp only: shade_lights_Cons filter.simps simp_thms if_True split: sum.split) simp
  qed
qed

lemma fst_shade_prefix:
  "take (length (fst (shade_lights scene ray_dir hit_loc hit_norm mat lights (color0, True))))
     (fst (RT_trace_ray_shade scene ray_dir hit_loc hit_norm inside mat lights depth color0))
   = fst (shade_lights scene ray_dir hit_loc hit_norm mat lights (color0, True))"
  by (simp add: RT_trace_ray_shade_unfold Let_def split: sum.split)

lemma shade_raises:
  "snd (shade_lights scene ray_dir hit_loc hit_norm mat lights (color0, True)) = Inl e \<Longrightarrow>
   RT_trace_ray_shade scene ray_dir hit_loc hit_norm inside mat lights depth color0
     = (fst (shade_lights scene ray_dir hit_loc hit_norm mat lights (color0, True)), Inl e)"
  by (simp add: RT_trace_ray_shade_unfold Let_def)

lemma snd_shade_depth_0:
  "\<not> 0 < depth \<Longrightarrow>
   snd (RT_trace_ray_shade scene ray_dir hit_loc hit_norm inside mat lights depth color0) =
     (case snd (shade_lights scene ray_dir hit_loc hit_norm mat lights (color0, True)) of
        Inl e \<Rightarrow> Inl e
      | Inr st \<Rightarrow>
          if snd st then
            Inr (cadd (fst st) (np_array (vmul (diffuse_color mat) (ambient_color scene))))
          else
            (case reflectivity_of mat ray_dir hit_norm of
               Inl e \<Rightarrow> Inl e
             | Inr k_r \<Rightarrow> Inr (fst st)))"
  by (simp add: RT_trace_ray_shade_unfold Let_def split: sum.split)

lemma normalized_nadir: "normalized (0, 0, - 7) = (0, 0, - 1)"
  using normalized_eq [of 7 "(0, 0, - 7)"] by (simp add: length_squared_def)

lemma demo_shadow_48: "shadow_ray (48, 0, 0) lamp =
   ((48 - 24 / 25000, 0, 7 / 25000), (- 24 / 25, 0, 7 / 25))"
  by (simp add: shadow_ray_def lamp_def normalized_24_7 eps_def)

lemma demo_shadow_nadir: "shadow_ray (0, 0, 0) nadir_lamp = ((0, 0, - 1 / 1000), (0, 0, - 1))"
  by (simp add: shadow_ray_def nadir_lamp_def normalized_nadir eps_def)

lemma demo_shadow_0: "shadow_ray (0, 0, 0) lamp = ((24 / 25000, 0, 7 / 25000), (24 / 25, 0, 7 / 25))"
  by (simp add: shadow_ray_def lamp_def normalized_lamp_0 eps_def)

lemma location_lamp: "location lamp = (24, 0, 7)"
  by (simp add: lamp_def)

subsection \<open>A hit on which a light shines\<close>

lemma RT_trace_ray_lit:
  assumes "has_hit (ray_cast scene ray_orig ray_dir)"
    and "hit_loc = hit_location (ray_cast scene ray_orig ray_dir)"
    and "mat = hit_object (ray_cast scene ray_orig ray_dir)"
    and "(hit_norm, inside) = flip_normal (hit_normal (ray_cast scene ray_orig ray_dir)) ray_dir"
    and "shade_lights scene ray_dir hit_loc hit_norm mat lights (zeros, True)
           = (srays, Inr (color, False))"
    and "reflectivity_of mat ray_dir hit_norm = Inr k_r"
  shows "RT_trace_ray scene ray_orig ray_dir lights depth =
     (if 0 < depth then
        (let D_r = D_reflect ray_dir hit_norm;
             rr = RT_trace_ray scene (vadd hit_loc (smul eps D_r)) D_r lights (depth - 1)
         in case snd rr of
              Inl e \<Rightarrow> ((ray_orig, ray_dir) # srays @ fst rr, Inl e)
            | Inr reflect_color \<Rightarrow>
                (let tr = RT_trace_ray_transmit scene ray_dir hit_loc hit_norm inside mat
                            lights depth k_r (cadd color (cscale (Some k_r) reflect_color))
                 in ((ray_orig, ray_dir) # srays @ fst rr @ fst tr, snd tr)))
      else ((ray_orig, ray_dir) # srays, Inr color))"
proof -
  have fl: "fst (flip_normal (hit_normal (ray_cast scene ray_orig ray_dir)) ray_dir) = hit_norm"
           "snd (flip_normal (hit_normal (ray_cast scene ray_orig ray_dir)) ray_dir) = inside"
    using assms(4) by (metis fst_conv, metis snd_conv)
  show ?thesis
    using assms(1)
    by (simp add: RT_trace_ray_unfold RT_trace_ray_shade_unfold fl
          assms(2)[symmetric] assms(3)[symmetric] assms(5) assms(6) Let_def
          split: sum.split)
qed

lemma reflectivity_of_eq:
  "use_fresnel mat \<longrightarrow> ior mat \<noteq> - 1 \<Longrightarrow>
   reflectivity_of mat ray_dir hit_norm =
     Inr (if use_fresnel mat
          then ((1 - ior mat) / (1 + ior mat)) ^ 2
               + (1 - ((1 - ior mat) / (1 + ior mat)) ^ 2) * (1 - \<bar>dot ray_dir hit_norm\<bar>) ^ 5
          else mirror_reflectivity mat)"
  by (simp add: reflectivity_of_def Let_def add_eq_0_iff)

subsection \<open>The test scene at depth 1\<close>

lemma RT_trace_ray_ambient:
  assumes "has_hit (ray_cast scene ray_orig ray_dir)"
    and "hit_loc = hit_location (ray_cast scene ray_orig ray_dir)"
    and "\<forall>light \<in> set lights.
           has_hit (ray_cast scene (fst (shadow_ray hit_loc light))
                      (snd (shadow_ray hit_loc light)))"
  shows "RT_trace_ray scene ray_orig ray_dir lights depth =
           ((ray_orig, ray_dir) # map (shadow_ray hit_loc) lights,
            Inr (np_array
                   (vmul (diffuse_color (hit_object (ray_cast scene ray_orig ray_dir)))
                      (ambient_color scene))))"
  using assms(1) assms(3) unfolding assms(2)
  by (simp add: RT_trace_ray_hit RT_trace_ray_shade.simps shade_lights_all_occluded Let_def)

lemma ambient_demo: "ambient_color (demo_scene mf mp) = (1 / 10, 1 / 10, 1 / 10)"
  by (simp add: demo_scene_def)

text \<open>The patch seen from the floor point (0, 0, 0), straight up: the lamp is below the
  patch, and the floor occludes it.\<close>

lemma demo_patch_from_below:
  "RT_trace_ray (demo_scene mf mp) (0, 0, 1 / 1000) (0, 0, 1) [lamp] 0
     = ([((0, 0, 1 / 1000), (0, 0, 1)),
         ((24 / 25000, 0, 14 - 7 / 25000), (24 / 25, 0, - 7 / 25))],
        Inr (np_array (vmul (diffuse_color mp) (1 / 10, 1 / 10, 1 / 10))))"
proof -
  have h: "ray_cast (demo_scene mf mp) (0, 0, 1 / 1000) (0, 0, 1)
     = \<lparr>has_hit = True, hit_location = (0, 0, 14), hit_normal = (0, 0, 1), hit_object = mp\<rparr>"
    by (simp add: demo_scene_def demo_cast_def)
  have n: "normalized (24, 0, - 7) = (24 / 25, 0, - 7 / 25)"
    using normalized_eq [of 25 "(24, 0, - 7)"] by (simp add: length_squared_def)
  have s: "shadow_ray (0, 0, 14) lamp = ((24 / 25000, 0, 14 - 7 / 25000), (24 / 25, 0, - 7 / 25))"
    by (simp add: shadow_ray_def lamp_def n eps_def)
  have o: "has_hit (ray_cast (demo_scene mf mp) (24 / 25000, 0, 14 - 7 / 25000)
                      (24 / 25, 0, - 7 / 25))"
    by (simp add: demo_scene_def demo_cast_def)
  have a: "has_hit (ray_cast (demo_scene mf mp) (0, 0, 1 / 1000) (0, 0, 1))"
    by (simp add: h)
  have b: "(0, 0, 14) = hit_location (ray_cast (demo_scene mf mp) (0, 0, 1 / 1000) (0, 0, 1))"
    by (simp add: h)
  have c: "\<forall>light \<in> set [lamp].
             has_hit (ray_cast (demo_scene mf mp) (fst (shadow_ray (0, 0, 14) light))
                        (snd (shadow_ray (0, 0, 14) light)))"
    using o by (simp add: s)
  have m: "hit_object (ray_cast (demo_scene mf mp) (0, 0, 1 / 1000) (0, 0, 1)) = mp"
    by (simp add: h)
  show ?thesis
    unfolding RT_trace_ray_ambient [OF a b c, of 0] m ambient_demo
    by (simp add: s)
qed

lemma demo_below_floor:
  "RT_trace_ray (demo_scene mf mp) (0, 0, - (1 / 1000)) (0, 0, - 1) ls 0
     = ([((0, 0, - (1 / 1000)), (0, 0, - 1))], Inr zeros)"
  by (simp add: RT_trace_ray_unfold demo_scene_def demo_cast_def miss_def)

lemma demo_shade_lights_0:
  assumes "diffuse_color m = (1, 1 / 2, 1 / 4)" "specular_color m = (1, 1, 1)"
    "specular_hardness m = 2"
  shows "shade_lights (demo_scene mf mp) (0, 0, - 1) (0, 0, 0) (0, 0, 1) m [lamp] (zeros, True)
     = ([((24 / 25000, 0, 7 / 25000), (24 / 25, 0, 7 / 25))],
        Inr ((Some (23 / 25), Some (39 / 50), Some (71 / 100)), False))"
  by (simp add: shade_light_def lamp_def normalized_lamp_0 eps_def demo_scene_def demo_cast_def
        miss_def length_squared_def norm_vec_half_0 assms float_pow_def Let_def
        power2_eq_square zeros_def)



lemma demo_lit_floor_depth_1:
  assumes "diffuse_color m = (1, 1 / 2, 1 / 4)" "specular_color m = (1, 1, 1)"
    "specular_hardness m = 2" "reflectivity_of m (0, 0, - 1) (0, 0, 1) = Inr k"
    "transmission m = 1 / 2" "ior m = 4 / 3"
  shows "RT_trace_ray (demo_scene m mp) (0, 0, 1) (0, 0, - 1) [lamp] 1
     = ([((0, 0, 1), (0, 0, - 1)),
         ((24 / 25000, 0, 7 / 25000), (24 / 25, 0, 7 / 25)),
         ((0, 0, 1 / 1000), (0, 0, 1)),
         ((24 / 25000, 0, 14 - 7 / 25000), (24 / 25, 0, - 7 / 25)),
         ((0, 0, - (1 / 1000)), (0, 0, - 1))],
        Inr (cadd (cadd (Some (23 / 25), Some (39 / 50), Some (71 / 100))
                     (cscale (Some k)
                        (np_array (vmul (diffuse_color mp) (1 / 10, 1 / 10, 1 / 10)))))
               (cscale (Some ((1 - k) * (1 / 2))) zeros)))"
proof -
  let ?S = "demo_scene m mp"
  have hit: "has_hit (ray_cast ?S (0, 0, 1) (0, 0, - 1))"
    and hl: "(0, 0, 0) = hit_location (ray_cast ?S (0, 0, 1) (0, 0, - 1))"
    and mat: "m = hit_object (ray_cast ?S (0, 0, 1) (0, 0, - 1))"
    and fl: "((0, 0, 1), False) = flip_normal (hit_normal (ray_cast ?S (0, 0, 1) (0, 0, - 1)))
                                    (0, 0, - 1)"
    by (simp_all add: demo_floor_hit_0 demo_flip_0)
  note sl = demo_shade_lights_0 [OF assms(1-3), of m mp]
  note L = RT_trace_ray_lit [OF hit hl mat fl sl assms(4), of 1]
  have dr: "D_reflect (0, 0, - 1) (0, 0, 1) = (0, 0, 1)"
    by (simp add: D_reflect_def)
  have ct: "cos_theta_t2 (3 / 4) (0, 0, - 1) (0, 0, 1) = 1"
    by (simp add: cos_theta_t2_def cos_theta_i_def)
  have dt: "D_transmit (3 / 4) (0, 0, - 1) (0, 0, 1) = (0, 0, - 1)"
    by (simp add: D_transmit_def ct cos_theta_i_def)
  have nr: "n_ratio_of m False = Inr (3 / 4)"
    by (simp add: n_ratio_of_def refraction_indices_def assms)
  have rr: "RT_trace_ray ?S (vadd (0, 0, 0) (smul eps (0, 0, 1))) (0, 0, 1) [lamp] (1 - 1)
     = ([((0, 0, 1 / 1000), (0, 0, 1)),
         ((24 / 25000, 0, 14 - 7 / 25000), (24 / 25, 0, - 7 / 25))],
        Inr (np_array (vmul (diffuse_color mp) (1 / 10, 1 / 10, 1 / 10))))"
    using demo_patch_from_below [of m mp] by (simp add: eps_def)
  have tt: "RT_trace_ray ?S (vadd (0, 0, 0) (smul eps (0, 0, - 1))) (0, 0, - 1) [lamp] (1 - 1)
     = ([((0, 0, - (1 / 1000)), (0, 0, - 1))], Inr zeros)"
    using demo_below_floor [of m mp "[lamp]"] by (simp add: eps_def)
  have tr: "RT_trace_ray_transmit ?S (0, 0, - 1) (0, 0, 0) (0, 0, 1) False m [lamp] 1 k c
     = ([((0, 0, - (1 / 1000)), (0, 0, - 1))],
        Inr (cadd c (cscale (Some ((1 - k) * (1 / 2))) zeros)))" for c
    unfolding RT_trace_ray_transmit_unfold nr
    by (simp only: sum.case ct dt Let_def) (simp add: assms(5) demo_below_floor eps_def)
  show ?thesis
    unfolding L dr
    by (simp only: Let_def rr tr sum.case fst_conv snd_conv) (simp add: eps_def)
qed


text \<open>The patch seen from below and from the side, with a lamp above it: the ray is inside
  the patch, and the refraction is a total internal reflection.\<close>

lemma demo_patch_hit_slanted:
  "ray_cast (demo_scene mf mp) (- 4, 0, 11) (4 / 5, 0, 3 / 5)
     = \<lparr>has_hit = True, hit_location = (0, 0, 14), hit_normal = (0, 0, 1), hit_object = mp\<rparr>"
  by (simp add: demo_scene_def demo_cast_def)

lemma demo_flip_patch: "flip_normal (0, 0, 1) (4 / 5, 0, 3 / 5) = ((0, 0, - 1), True)"
  by (simp add: flip_normal_def)

lemma normalized_top_lamp: "normalized (- 4, 0, 3) = (- 4 / 5, 0, 3 / 5)"
  using normalized_eq [of 5 "(- 4, 0, 3)"] by (simp add: length_squared_def)

lemma norm_vec_half_patch: "norm_vec (- (8 / 5), 0, 0) = 8 / 5"
  using norm_vec_eq [of "8 / 5" "(- (8 / 5), 0, 0)"]
  by (simp add: length_squared_def power2_eq_square)

lemma demo_shade_lights_patch:
  assumes "diffuse_color m = (1, 1 / 2, 1 / 4)" "specular_color m = (1, 1, 1)"
    "specular_hardness m = 2"
  shows "shade_lights (demo_scene mf mp) (4 / 5, 0, 3 / 5) (0, 0, 14) (0, 0, - 1) m [top_lamp]
           (zeros, True)
     = ([((- (4 / 5000), 0, 14 + 3 / 5000), (- (4 / 5), 0, 3 / 5))],
        Inr ((Some (- (3 / 5)), Some (- (3 / 10)), Some (- (3 / 20))), False))"
  by (simp add: shade_light_def top_lamp_def normalized_top_lamp eps_def demo_scene_def
        demo_cast_def miss_def length_squared_def norm_vec_half_patch assms float_pow_def
        Let_def power2_eq_square zeros_def)

lemma demo_floor_from_patch:
  "RT_trace_ray (demo_scene mf mp) (4 / 5000, 0, 14 - 3 / 5000) (4 / 5, 0, - (3 / 5))
     [top_lamp] 0
     = ([((4 / 5000, 0, 14 - 3 / 5000), (4 / 5, 0, - (3 / 5))),
         ((56 / 3 - 4 / 5000, 0, 3 / 5000), (- (4 / 5), 0, 3 / 5))],
        Inr (np_array (vmul (diffuse_color mf) (1 / 10, 1 / 10, 1 / 10))))"
proof -
  let ?S = "demo_scene mf mp"
  have n: "normalized (- 68 / 3, 0, 17) = (- 4 / 5, 0, 3 / 5)"
    using normalized_eq [of "85 / 3" "(- 68 / 3, 0, 17)"] by (simp add: length_squared_def)
  have s: "shadow_ray (56 / 3, 0, 0) top_lamp
             = ((56 / 3 - 4 / 5000, 0, 3 / 5000), (- (4 / 5), 0, 3 / 5))"
    using n by (simp add: shadow_ray_def top_lamp_def eps_def)
  have o: "has_hit (ray_cast ?S (56 / 3 - 4 / 5000, 0, 3 / 5000) (- (4 / 5), 0, 3 / 5))"
    by (simp add: demo_scene_def demo_cast_def)
  have a: "has_hit (ray_cast ?S (4 / 5000, 0, 14 - 3 / 5000) (4 / 5, 0, - (3 / 5)))"
    by (simp add: demo_scene_def demo_cast_def)
  have b: "(56 / 3, 0, 0)
             = hit_location (ray_cast ?S (4 / 5000, 0, 14 - 3 / 5000) (4 / 5, 0, - (3 / 5)))"
    by (simp add: demo_scene_def demo_cast_def)
  have c: "\<forall>light \<in> set [top_lamp].
             has_hit (ray_cast ?S (fst (shadow_ray (56 / 3, 0, 0) light))
                        (snd (shadow_ray (56 / 3, 0, 0) light)))"
    using o by (simp add: s)
  have m: "hit_object (ray_cast ?S (4 / 5000, 0, 14 - 3 / 5000) (4 / 5, 0, - (3 / 5))) = mf"
    by (simp add: demo_scene_def demo_cast_def)
  show ?thesis
    unfolding RT_trace_ray_ambient [OF a b c, of 0] m ambient_demo
    by (simp add: s)
qed

lemma reflectivity_crystal: "reflectivity_of crystal d n = Inr (1 / 2)"
  by (simp add: reflectivity_of_def crystal_def)

lemma demo_tir_depth_1:
  "RT_trace_ray (demo_scene matte crystal) (- 4, 0, 11) (4 / 5, 0, 3 / 5) [top_lamp] 1
     = ([((- 4, 0, 11), (4 / 5, 0, 3 / 5)),
         ((- (4 / 5000), 0, 14 + 3 / 5000), (- (4 / 5), 0, 3 / 5)),
         ((4 / 5000, 0, 14 - 3 / 5000), (4 / 5, 0, - (3 / 5))),
         ((56 / 3 - 4 / 5000, 0, 3 / 5000), (- (4 / 5), 0, 3 / 5))],
        Inr (Some (- (11 / 20)), Some (- (11 / 40)), Some (- (11 / 80))))"
proof -
  let ?S = "demo_scene matte crystal"
  have hit: "has_hit (ray_cast ?S (- 4, 0, 11) (4 / 5, 0, 3 / 5))"
    and hl: "(0, 0, 14) = hit_location (ray_cast ?S (- 4, 0, 11) (4 / 5, 0, 3 / 5))"
    and mat: "crystal = hit_object (ray_cast ?S (- 4, 0, 11) (4 / 5, 0, 3 / 5))"
    and fl: "((0, 0, - 1), True)
               = flip_normal (hit_normal (ray_cast ?S (- 4, 0, 11) (4 / 5, 0, 3 / 5)))
                   (4 / 5, 0, 3 / 5)"
    by (simp_all add: demo_patch_hit_slanted demo_flip_patch)
  have sl: "shade_lights ?S (4 / 5, 0, 3 / 5) (0, 0, 14) (0, 0, - 1) crystal [top_lamp]
           (zeros, True)
     = ([((- (4 / 5000), 0, 14 + 3 / 5000), (- (4 / 5), 0, 3 / 5))],
        Inr ((Some (- (3 / 5)), Some (- (3 / 10)), Some (- (3 / 20))), False))"
    by (rule demo_shade_lights_patch) (simp_all add: crystal_def)
  note L = RT_trace_ray_lit [OF hit hl mat fl sl reflectivity_crystal, of 1]
  have dr: "D_reflect (4 / 5, 0, 3 / 5) (0, 0, - 1) = (4 / 5, 0, - (3 / 5))"
    by (simp add: D_reflect_def)
  have ct: "cos_theta_t2 (4 / 3) (4 / 5, 0, 3 / 5) (0, 0, - 1) = - (31 / 225)"
    by (simp add: cos_theta_t2_def cos_theta_i_def power2_eq_square)
  have nr: "n_ratio_of crystal True = Inr (4 / 3)"
    by (simp add: n_ratio_of_def refraction_indices_def crystal_def)
  have tr: "RT_trace_ray_transmit ?S (4 / 5, 0, 3 / 5) (0, 0, 14) (0, 0, - 1) True crystal
              [top_lamp] 1 (1 / 2) c = ([], Inr c)" for c
    unfolding RT_trace_ray_transmit_unfold nr
    by (simp only: sum.case ct) (simp add: crystal_def)
  have rr: "RT_trace_ray ?S (vadd (0, 0, 14) (smul eps (4 / 5, 0, - (3 / 5))))
              (4 / 5, 0, - (3 / 5)) [top_lamp] (1 - 1)
     = ([((4 / 5000, 0, 14 - 3 / 5000), (4 / 5, 0, - (3 / 5))),
         ((56 / 3 - 4 / 5000, 0, 3 / 5000), (- (4 / 5), 0, 3 / 5))],
        Inr (np_array (vmul (diffuse_color matte) (1 / 10, 1 / 10, 1 / 10))))"
    using demo_floor_from_patch [of matte crystal] by (simp add: eps_def)
  show ?thesis
    unfolding L dr
    by (simp only: Let_def rr tr sum.case fst_conv snd_conv) (simp add: matte_def)
qed


subsection \<open>The two divisions of the shading of a light\<close>

lemma is_finite_np_array [simp]: "is_finite (np_array v)"
  by (cases v) simp

lemma is_finite_cadd [simp]: "is_finite a \<Longrightarrow> is_finite b \<Longrightarrow> is_finite (cadd a b)"
  by (cases a; cases b) auto

lemma is_finite_cscale [simp]: "is_finite a \<Longrightarrow> is_finite (cscale (Some k) a)"
  by (cases a) auto

lemma not_finite_Nones [simp]: "\<not> is_finite (None, None, None)"
  by simp

lemma np_add_None [simp]: "np_add a None = None" "np_add None b = None"
  by (cases a; simp) simp

lemma np_mul_None [simp]: "np_mul a None = None" "np_mul None b = None"
  by (cases a; simp) simp

lemma cadd_Nones [simp]:
  "cadd c (None, None, None) = (None, None, None)"
  "cadd (None, None, None) c = (None, None, None)"
  by (cases c; simp)+

lemma cmul_Nones [simp]: "cmul c (None, None, None) = (None, None, None)"
  by (cases c; simp)

lemma cscale_Nones [simp]: "cscale k (None, None, None) = (None, None, None)"
  by simp

lemma cdiv_zero [simp]: "cdiv (np_array v) 0 = (None, None, None)"
  by (cases v) simp

lemma cdiv_finite: "k \<noteq> 0 \<Longrightarrow> cdiv (np_array v) k = np_array (sdiv v k)"
  by (cases v) simp

lemma cmul_finite [simp]: "cmul (np_array a) (np_array b) = np_array (vmul a b)"
  by (cases a; cases b) simp

lemma cscale_finite [simp]: "cscale (Some k) (np_array a) = np_array (smul k a)"
  by (cases a) simp

lemma cadd_finite [simp]: "cadd (np_array a) (np_array b) = np_array (vadd a b)"
  by (cases a; cases b) simp

lemma shade_light_error:
  "snd (shade_light scene ray_dir hit_loc hit_norm mat light st) = Inl e \<Longrightarrow>
   e = ZeroDivisionError"
  by (auto simp add: shade_light_def Let_def split: prod.splits if_splits)

lemma shade_lights_error:
  "snd (shade_lights scene ray_dir hit_loc hit_norm mat lights st) = Inl e \<Longrightarrow>
   e = ZeroDivisionError"
proof (induction lights arbitrary: st)
  case Nil
  then show ?case by simp
next
  case (Cons l ls)
  show ?case
  proof (cases "snd (shade_light scene ray_dir hit_loc hit_norm mat l st)")
    case (Inl e')
    then show ?thesis
      using Cons.prems shade_light_error [of scene ray_dir hit_loc hit_norm mat l st e']
      by (simp only: shade_lights_Cons sum.case snd_conv) simp
  next
    case (Inr st')
    then show ?thesis
      using Cons.prems Cons.IH [of st']
      by (simp only: shade_lights_Cons sum.case snd_conv)
  qed
qed

text \<open>One iteration at a light that is not occluded.\<close>

lemma shade_light_lit:
  assumes "\<not> has_hit (ray_cast scene (fst (shadow_ray hit_loc light))
                         (snd (shadow_ray hit_loc light)))"
    and "snd (shadow_ray hit_loc light) \<noteq> ray_dir"
  shows "\<exists>c. snd (shade_light scene ray_dir hit_loc hit_norm mat light st) = Inr (c, False)
           \<and> (location light = hit_loc \<longrightarrow> c = (None, None, None))
           \<and> (fst st = (None, None, None) \<longrightarrow> c = (None, None, None))
           \<and> (location light \<noteq> hit_loc \<longrightarrow>
                float_pow (dot hit_norm
                   (sdiv (vadd (snd (shadow_ray hit_loc light)) (vneg ray_dir))
                      (norm_vec (vadd (snd (shadow_ray hit_loc light)) (vneg ray_dir)))))
                  (specular_hardness mat) \<noteq> None \<longrightarrow>
                is_finite (fst st) \<longrightarrow> is_finite c)"
proof -
  obtain c0 f where st: "st = (c0, f)" by (cases st)
  have z: "location light = hit_loc \<Longrightarrow> length_squared (vsub (location light) hit_loc) = 0"
    by (simp add: length_squared_eq_0_iff vsub_eq_0_iff)
  have nz: "location light \<noteq> hit_loc \<Longrightarrow> length_squared (vsub (location light) hit_loc) \<noteq> 0"
    by (simp add: length_squared_eq_0_iff vsub_eq_0_iff)
  show ?thesis
    using assms z nz
    by (auto simp add: shade_light_def shadow_ray_def Let_def st half_vector_eq_0_iff
          cdiv_finite simp del: is_finite.simps)
qed

lemma shade_lights_dir:
  assumes "l \<in> set ls"
    and "\<not> has_hit (ray_cast scene (fst (shadow_ray hit_loc l)) (snd (shadow_ray hit_loc l)))"
    and "snd (shadow_ray hit_loc l) = ray_dir"
  shows "snd (shade_lights scene ray_dir hit_loc hit_norm mat ls st) = Inl ZeroDivisionError"
  using assms(1)
proof (induction ls arbitrary: st)
  case Nil
  then show ?case by simp
next
  case (Cons x xs)
  show ?case
  proof (cases "snd (shade_light scene ray_dir hit_loc hit_norm mat x st)")
    case (Inl e)
    then show ?thesis
      using shade_light_error [OF Inl]
      by (simp only: shade_lights_Cons sum.case snd_conv)
  next
    case (Inr st')
    then have "x \<noteq> l"
      using shade_light_raises [OF assms(2,3), of hit_norm mat st] by auto
    then have "l \<in> set xs" using Cons.prems by simp
    then show ?thesis
      using Cons.IH [of st'] Inr
      by (simp only: shade_lights_Cons sum.case snd_conv)
  qed
qed

lemma shade_light_cases:
  obtains
    (occluded) "has_hit (ray_cast scene (fst (shadow_ray hit_loc l)) (snd (shadow_ray hit_loc l)))"
      "snd (shade_light scene ray_dir hit_loc hit_norm mat l st) = Inr st"
  | (raises) "\<not> has_hit (ray_cast scene (fst (shadow_ray hit_loc l)) (snd (shadow_ray hit_loc l)))"
      "snd (shadow_ray hit_loc l) = ray_dir"
      "snd (shade_light scene ray_dir hit_loc hit_norm mat l st) = Inl ZeroDivisionError"
  | (lit) c where
      "\<not> has_hit (ray_cast scene (fst (shadow_ray hit_loc l)) (snd (shadow_ray hit_loc l)))"
      "snd (shadow_ray hit_loc l) \<noteq> ray_dir"
      "snd (shade_light scene ray_dir hit_loc hit_norm mat l st) = Inr (c, False)"
      "location l = hit_loc \<longrightarrow> c = (None, None, None)"
      "fst st = (None, None, None) \<longrightarrow> c = (None, None, None)"
      "location l \<noteq> hit_loc \<longrightarrow>
         float_pow (dot hit_norm
            (sdiv (vadd (snd (shadow_ray hit_loc l)) (vneg ray_dir))
               (norm_vec (vadd (snd (shadow_ray hit_loc l)) (vneg ray_dir)))))
           (specular_hardness mat) \<noteq> None \<longrightarrow>
         is_finite (fst st) \<longrightarrow> is_finite c"
proof (cases "has_hit (ray_cast scene (fst (shadow_ray hit_loc l)) (snd (shadow_ray hit_loc l)))")
  case True
  then show ?thesis
    using occluded shade_light_occluded [OF True, of ray_dir hit_norm mat st] by simp
next
  case False
  show ?thesis
  proof (cases "snd (shadow_ray hit_loc l) = ray_dir")
    case True
    then show ?thesis
      using raises False shade_light_raises [OF False True, of hit_norm mat st] by simp
  next
    case ne: False
    from shade_light_lit [OF False ne, of hit_norm mat st]
    show ?thesis using lit False ne by blast
  qed
qed

lemma shade_lights_None:
  "fst st = (None, None, None) \<Longrightarrow> \<not> snd st \<Longrightarrow>
   snd (shade_lights scene ray_dir hit_loc hit_norm mat ls st) = Inl ZeroDivisionError
   \<or> snd (shade_lights scene ray_dir hit_loc hit_norm mat ls st) = Inr ((None, None, None), False)"
proof (induction ls arbitrary: st)
  case Nil
  then show ?case by (cases st) simp
next
  case (Cons x xs)
  show ?case
  proof (cases rule: shade_light_cases [of scene hit_loc x ray_dir hit_norm mat st])
    case occluded
    show ?thesis
      using Cons.IH [OF Cons.prems] occluded(2)
      by (simp only: shade_lights_Cons sum.case snd_conv)
  next
    case raises
    then show ?thesis
      by (simp only: shade_lights_Cons sum.case snd_conv) simp
  next
    case (lit c)
    then have c: "c = (None, None, None)" using Cons.prems by simp
    have "fst (c, False) = (None, None, None)" "\<not> snd (c, False)" using c by simp_all
    from Cons.IH [OF this] show ?thesis
      using lit(3)
      by (simp only: shade_lights_Cons sum.case snd_conv)
  qed
qed

lemma shade_lights_at_light:
  assumes "l \<in> set ls"
    and "\<not> has_hit (ray_cast scene (fst (shadow_ray hit_loc l)) (snd (shadow_ray hit_loc l)))"
    and "location l = hit_loc"
  shows "snd (shade_lights scene ray_dir hit_loc hit_norm mat ls st) = Inl ZeroDivisionError
   \<or> snd (shade_lights scene ray_dir hit_loc hit_norm mat ls st) = Inr ((None, None, None), False)"
  using assms(1)
proof (induction ls arbitrary: st)
  case Nil
  then show ?case by simp
next
  case (Cons x xs)
  show ?case
  proof (cases rule: shade_light_cases [of scene hit_loc x ray_dir hit_norm mat st])
    case occluded
    then have "x \<noteq> l" using assms(2) by auto
    then have "l \<in> set xs" using Cons.prems by simp
    then show ?thesis
      using Cons.IH [of st] occluded(2)
      by (simp only: shade_lights_Cons sum.case snd_conv)
  next
    case raises
    then show ?thesis
      by (simp only: shade_lights_Cons sum.case snd_conv) simp
  next
    case (lit c)
    show ?thesis
    proof (cases "x = l")
      case True
      then have "c = (None, None, None)" using lit(4) assms(3) by simp
      then show ?thesis
        using shade_lights_None [of "(c, False)" scene ray_dir hit_loc hit_norm mat xs] lit(3)
        by (simp only: shade_lights_Cons sum.case snd_conv) simp
    next
      case False
      then have "l \<in> set xs" using Cons.prems by simp
      then show ?thesis
        using Cons.IH [of "(c, False)"] lit(3)
        by (simp only: shade_lights_Cons sum.case snd_conv)
    qed
  qed
qed

lemma shade_lights_safe:
  assumes "\<forall>l \<in> set ls.
      has_hit (ray_cast scene (fst (shadow_ray hit_loc l)) (snd (shadow_ray hit_loc l)))
      \<or> (location l \<noteq> hit_loc \<and> snd (shadow_ray hit_loc l) \<noteq> ray_dir)"
    and "\<forall>x. float_pow x (specular_hardness mat) \<noteq> None"
    and "is_finite (fst st)"
  shows "\<exists>st'. snd (shade_lights scene ray_dir hit_loc hit_norm mat ls st) = Inr st'
           \<and> is_finite (fst st')"
  using assms(1,3)
proof (induction ls arbitrary: st)
  case Nil
  then show ?case by simp
next
  case (Cons x xs)
  show ?case
  proof (cases rule: shade_light_cases [of scene hit_loc x ray_dir hit_norm mat st])
    case occluded
    then show ?thesis
      using Cons.IH [of st] Cons.prems
      by (simp only: shade_lights_Cons sum.case snd_conv) simp
  next
    case raises
    then show ?thesis using Cons.prems(1) by simp
  next
    case (lit c)
    then have "location x \<noteq> hit_loc" using Cons.prems(1) by simp
    then have "is_finite c" using lit(6) assms(2) Cons.prems(2) by blast
    then show ?thesis
      using Cons.IH [of "(c, False)"] Cons.prems(1) lit(3)
      by (simp only: shade_lights_Cons sum.case snd_conv) simp
  qed
qed

lemma error_cases: "e \<noteq> IndexError \<longleftrightarrow> e = ZeroDivisionError"
  by (cases e) simp_all

lemma reflectivity_no_index: "reflectivity_of mat d n \<noteq> Inl IndexError"
  by (simp add: reflectivity_of_def Let_def)

lemma n_ratio_no_index: "n_ratio_of mat ins \<noteq> Inl IndexError"
  by (simp add: n_ratio_of_def Let_def split: prod.splits)

lemma shade_lights_no_index:
  "snd (shade_lights scene ray_dir hit_loc hit_norm mat lights st) \<noteq> Inl IndexError"
  using shade_lights_error [of scene ray_dir hit_loc hit_norm mat lights st IndexError]
  by auto

lemma transmit_no_index:
  assumes "\<And>o' d'. snd (RT_trace_ray scene o' d' lights (depth - 1)) \<noteq> Inl IndexError"
  shows "snd (RT_trace_ray_transmit scene d hl hn ins m lights depth k c) \<noteq> Inl IndexError"
proof (cases "n_ratio_of m ins")
  case (Inl e)
  then have "e \<noteq> IndexError"
    using n_ratio_no_index [of m ins] by simp
  then show ?thesis
    by (simp add: RT_trace_ray_transmit_unfold Inl)
next
  case (Inr nr)
  define tr where "tr = snd (RT_trace_ray scene (vadd hl (smul eps (D_transmit nr d hn)))
                               (D_transmit nr d hn) lights (depth - 1))"
  have "tr \<noteq> Inl IndexError"
    unfolding tr_def by (rule assms)
  then have "(case tr of Inl e \<Rightarrow> Inl e
              | Inr t \<Rightarrow> Inr (cadd c (cscale (Some ((1 - k) * transmission m)) t)))
             \<noteq> (Inl IndexError :: error + color)"
    by (cases tr) simp_all
  then show ?thesis
    by (simp add: RT_trace_ray_transmit_unfold Inr Let_def tr_def)
qed

lemma shade_no_index:
  assumes "0 < depth \<Longrightarrow>
     (\<And>o' d'. snd (RT_trace_ray scene o' d' lights (depth - 1)) \<noteq> Inl IndexError)"
  shows "snd (RT_trace_ray_shade scene d hl hn ins m lights depth c) \<noteq> Inl IndexError"
proof (cases "snd (shade_lights scene d hl hn m lights (c, True))")
  case (Inl e)
  then have "e \<noteq> IndexError"
    using shade_lights_no_index [of scene d hl hn m lights "(c, True)"] by simp
  then show ?thesis
    by (simp add: shade_raises [OF Inl])
next
  case (Inr st)
  show ?thesis
  proof (cases "snd st")
    case True
    then show ?thesis
      by (simp add: RT_trace_ray_shade_unfold Let_def Inr)
  next
    case nl: False
    show ?thesis
    proof (cases "reflectivity_of m d hn")
      case (Inl e)
      then have "e \<noteq> IndexError"
        using reflectivity_no_index [of m d hn] by simp
      then show ?thesis
        by (simp add: RT_trace_ray_shade_unfold Let_def Inr nl Inl)
    next
      case kr: (Inr k_r)
      show ?thesis
      proof (cases "0 < depth")
        case False
        then show ?thesis
          by (simp add: RT_trace_ray_shade_unfold Let_def Inr nl kr)
      next
        case True
        note IH = assms [OF True]
        define rr where "rr = snd (RT_trace_ray scene (vadd hl (smul eps (D_reflect d hn)))
                                     (D_reflect d hn) lights (depth - 1))"
        have r: "rr \<noteq> Inl IndexError"
          unfolding rr_def by (rule IH)
        show ?thesis
        proof (cases rr)
          case (Inl e)
          then have "e \<noteq> IndexError" using r by simp
          then show ?thesis
            using Inl unfolding rr_def
            by (simp add: RT_trace_ray_shade_unfold Let_def Inr nl kr True)
        next
          case rc: (Inr reflect_color)
          show ?thesis
            using rc transmit_no_index [OF IH] unfolding rr_def
            by (simp add: RT_trace_ray_shade_unfold Let_def Inr nl kr True)
        qed
      qed
    qed
  qed
qed

lemma trace_no_index_aux:
  "nat depth \<le> n \<Longrightarrow>
   snd (RT_trace_ray scene ray_orig ray_dir lights depth) \<noteq> Inl IndexError"
proof (induction n arbitrary: depth ray_orig ray_dir)
  case 0
  then have d: "\<not> 0 < depth" by simp
  have "snd (RT_trace_ray_shade scene ray_dir hl hn ins m lights depth c) \<noteq> Inl IndexError"
    for hl hn ins m c
    using d by (intro shade_no_index) simp
  then show ?case
    by (simp add: RT_trace_ray_unfold Let_def)
next
  case (Suc n)
  have "snd (RT_trace_ray_shade scene ray_dir hl hn ins m lights depth c) \<noteq> Inl IndexError"
    for hl hn ins m c
  proof (rule shade_no_index)
    fix o' d'
    assume "0 < depth"
    then have "nat (depth - 1) \<le> n" using Suc.prems by simp
    then show "snd (RT_trace_ray scene o' d' lights (depth - 1)) \<noteq> Inl IndexError"
      by (rule Suc.IH)
  qed
  then show ?case
    by (simp add: RT_trace_ray_unfold Let_def)
qed

lemma RT_trace_ray_error:
  "snd (RT_trace_ray scene ray_orig ray_dir lights depth) = Inl e \<Longrightarrow> e = ZeroDivisionError"
  using trace_no_index_aux [of depth "nat depth" scene ray_orig ray_dir lights]
  by (cases e) simp_all

lemma transmit_Nones:
  "snd (RT_trace_ray_transmit scene d hl hn ins m lights depth k (None, None, None))
     = Inl ZeroDivisionError
   \<or> snd (RT_trace_ray_transmit scene d hl hn ins m lights depth k (None, None, None))
     = Inr (None, None, None)"
proof -
  have a: "n_ratio_of m ins = Inl e \<Longrightarrow> e = ZeroDivisionError" for e
    using n_ratio_no_index [of m ins] by (cases e) simp_all
  show ?thesis
    by (auto simp add: RT_trace_ray_transmit_unfold Let_def
          split: sum.split dest: a RT_trace_ray_error)
qed

lemma shade_Nones:
  assumes "snd (shade_lights scene d hl hn m lights (c, True)) = Inl ZeroDivisionError
         \<or> snd (shade_lights scene d hl hn m lights (c, True)) = Inr ((None, None, None), False)"
  shows "snd (RT_trace_ray_shade scene d hl hn ins m lights depth c) = Inl ZeroDivisionError
       \<or> snd (RT_trace_ray_shade scene d hl hn ins m lights depth c) = Inr (None, None, None)"
  using assms
proof
  assume "snd (shade_lights scene d hl hn m lights (c, True)) = Inl ZeroDivisionError"
  then show ?thesis by (simp add: shade_raises)
next
  assume s: "snd (shade_lights scene d hl hn m lights (c, True)) = Inr ((None, None, None), False)"
  have a: "reflectivity_of m d hn = Inl e \<Longrightarrow> e = ZeroDivisionError" for e
    using reflectivity_no_index [of m d hn] by (cases e) simp_all
  show ?thesis
    using transmit_Nones [of scene d hl hn ins m lights depth]
    by (auto simp add: RT_trace_ray_shade_unfold Let_def s
          split: sum.split dest: a RT_trace_ray_error)
qed

lemma shade_lights_complete:
  "snd (shade_lights scene ray_dir hit_loc hit_norm mat lights st) = Inr st' \<Longrightarrow>
   fst (shade_lights scene ray_dir hit_loc hit_norm mat lights st)
     = map (shadow_ray hit_loc) lights"
  using fst_shade_lights_ok [of scene ray_dir hit_loc hit_norm mat lights st] by simp

lemma is_finite_zeros [simp]: "is_finite zeros"
  by (simp add: zeros_def)

lemma reflectivity_no_raise:
  "use_fresnel mat \<longrightarrow> ior mat \<noteq> - 1 \<Longrightarrow> \<exists>k. reflectivity_of mat d n = Inr k"
  by (simp add: reflectivity_of_eq)

lemma shade_depth_0_safe:
  assumes "\<not> 0 < depth"
    and "use_fresnel mat \<longrightarrow> ior mat \<noteq> - 1"
    and "snd (shade_lights scene ray_dir hit_loc hit_norm mat lights (color0, True)) = Inr st"
  shows "\<exists>c. snd (RT_trace_ray_shade scene ray_dir hit_loc hit_norm inside mat lights depth
                    color0) = Inr c
            \<and> (is_finite (fst st) \<longrightarrow> is_finite c)"
proof -
  obtain k where k: "reflectivity_of mat ray_dir hit_norm = Inr k"
    using reflectivity_no_raise [OF assms(2)] by blast
  show ?thesis
    by (cases "snd st")
       (simp_all add: snd_shade_depth_0 [OF assms(1)] assms(3) k
          del: is_finite.simps split_paired_Ex)
qed

lemma shadow_floor_lamp: "shadow_ray (0, 0, 0) floor_lamp = ((0, 0, 0), (0, 0, 0))"
  by (simp add: shadow_ray_def floor_lamp_def normalized_def norm_vec_def length_squared_def
        Let_def)

lemma float_pow_2: "float_pow x 2 \<noteq> None"
  by (simp add: float_pow_def)

section \<open>Properties\<close>

text \<open>
  C1. When the oracle reports no hit for the ray, \<open>RT_trace_ray\<close> returns exactly black,
  whatever the lights and the depth are, and the oracle has been queried once.
\<close>

theorem RT_trace_ray_no_hit:
  "\<not> has_hit (ray_cast scene ray_orig ray_dir) \<Longrightarrow>
     RT_trace_ray scene ray_orig ray_dir lights depth
       = ([(ray_orig, ray_dir)], Inr (Some 0, Some 0, Some 0))"
  by (simp add: RT_trace_ray.simps zeros_def)

theorem RT_trace_ray_no_hit_witness:
  "\<not> has_hit (ray_cast (demo_scene matte shiny) (0, 0, 1) (1, 0, 0))
   \<and> RT_trace_ray (demo_scene matte shiny) (0, 0, 1) (1, 0, 0) [lamp] 3
       = ([((0, 0, 1), (1, 0, 0))], Inr (Some 0, Some 0, Some 0))"
proof -
  have h: "\<not> has_hit (ray_cast (demo_scene matte shiny) (0, 0, 1) (1, 0, 0))"
    by (simp add: demo_scene_def demo_cast_def miss_def)
  show ?thesis
    using h RT_trace_ray_no_hit [OF h, of "[lamp]" 3] by simp
qed

text \<open>
  C3. When the primary ray hits and the shadow ray of every light hits something (or there
  is no light), \<open>RT_trace_ray\<close> returns exactly \<open>diffuse_color * ambient_color\<close>, at every
  depth and for every material. The rays cast are the primary ray and one shadow ray for
  each light, and nothing else: no reflection or transmission ray. The reflectivity is not
  computed: the result is a colour even for a material whose reflectivity cannot be
  computed.
\<close>

theorem RT_trace_ray_ambient_only:
  assumes "has_hit (ray_cast scene ray_orig ray_dir)"
    and "\<forall>light \<in> set lights.
           has_hit (ray_cast scene
             (vadd (hit_location (ray_cast scene ray_orig ray_dir))
                (smul eps (normalized (vsub (location light)
                   (hit_location (ray_cast scene ray_orig ray_dir))))))
             (normalized (vsub (location light)
                (hit_location (ray_cast scene ray_orig ray_dir)))))"
  shows "RT_trace_ray scene ray_orig ray_dir lights depth =
           ((ray_orig, ray_dir)
              # map (shadow_ray (hit_location (ray_cast scene ray_orig ray_dir))) lights,
            Inr (np_array
                   (vmul (diffuse_color (hit_object (ray_cast scene ray_orig ray_dir)))
                      (ambient_color scene))))"
proof -
  let ?hl = "hit_location (ray_cast scene ray_orig ray_dir)"
  have "\<forall>light \<in> set lights.
          has_hit (ray_cast scene (fst (shadow_ray ?hl light)) (snd (shadow_ray ?hl light)))"
    using assms(2) by (simp add: shadow_ray_def Let_def)
  then show ?thesis
    using assms(1)
    by (simp add: RT_trace_ray_hit RT_trace_ray_shade.simps shade_lights_all_occluded Let_def)
qed

theorem RT_trace_ray_ambient_only_witness:
  "has_hit (ray_cast (demo_scene (glass\<lparr>ior := - 1\<rparr>) shiny) (48, 0, 1) (0, 0, - 1))
   \<and> has_hit (ray_cast (demo_scene (glass\<lparr>ior := - 1\<rparr>) shiny)
         (vadd (48, 0, 0) (smul eps (normalized (vsub (location lamp) (48, 0, 0)))))
         (normalized (vsub (location lamp) (48, 0, 0))))
   \<and> reflectivity_of (glass\<lparr>ior := - 1\<rparr>) (0, 0, - 1) (0, 0, 1) = Inl ZeroDivisionError
   \<and> RT_trace_ray (demo_scene (glass\<lparr>ior := - 1\<rparr>) shiny) (48, 0, 1) (0, 0, - 1) [lamp] 2
     = ([((48, 0, 1), (0, 0, - 1)),
         ((48 - 24 / 25000, 0, 7 / 25000), (- 24 / 25, 0, 7 / 25))],
        Inr (Some (1 / 10), Some (1 / 20), Some (1 / 40)))"
proof -
  let ?S = "demo_scene (glass\<lparr>ior := - 1\<rparr>) shiny"
  have h1: "has_hit (ray_cast ?S (48, 0, 1) (0, 0, - 1))"
    by (simp add: demo_floor_hit_48)
  have sh: "\<forall>light \<in> set [lamp].
         has_hit (ray_cast ?S
           (vadd (48, 0, 0) (smul eps (normalized (vsub (location light) (48, 0, 0)))))
           (normalized (vsub (location light) (48, 0, 0))))"
    by (simp add: lamp_def normalized_24_7 eps_def demo_scene_def demo_cast_def)
  then have h2: "\<forall>light \<in> set [lamp].
           has_hit (ray_cast ?S
             (vadd (hit_location (ray_cast ?S (48, 0, 1) (0, 0, - 1)))
                (smul eps (normalized (vsub (location light)
                   (hit_location (ray_cast ?S (48, 0, 1) (0, 0, - 1)))))))
             (normalized (vsub (location light)
                (hit_location (ray_cast ?S (48, 0, 1) (0, 0, - 1))))))"
    by (simp only: demo_floor_hit_48 hit.simps)
  have amb: "ambient_color ?S = (1 / 10, 1 / 10, 1 / 10)"
    by (simp add: demo_scene_def)
  have dc: "diffuse_color (glass\<lparr>ior := - 1\<rparr>) = (1, 1 / 2, 1 / 4)"
    by (simp add: glass_def)
  have kr: "reflectivity_of (glass\<lparr>ior := - 1\<rparr>) (0, 0, - 1) (0, 0, 1)
              = Inl ZeroDivisionError"
    by (simp add: reflectivity_of_def glass_def)
  show ?thesis
    using RT_trace_ray_ambient_only [OF h1 h2, of 2] h1 sh kr
    by (simp add: demo_floor_hit_48 shadow_ray_def lamp_def normalized_24_7 eps_def amb dc)
qed

text \<open>
  C4. \<open>RT_trace_ray\<close> terminates for every depth, and it casts at most
  \<open>(2 ^ (depth + 1) - 1) * (1 + number of lights)\<close> rays. Every recursive call of
  \<open>RT_trace_ray\<close> is made either by the shading part, under the guard \<open>depth > 0\<close>, or
  by the transmission branch (which the shading part enters under that guard only), and
  it passes exactly \<open>depth - 1\<close>. At a depth of 0 (or below) the rays cast are the primary
  ray and the shadow rays, and the result is the direct lighting, or the ambient term when
  no light contributed; the reflectivity is still computed there, so a material whose
  reflectivity cannot be computed gives the error and not a colour.
\<close>

theorem RT_trace_ray_terminates:
  "terminates (Trace_call scene ray_orig ray_dir lights depth)
   \<and> length (fst (RT_trace_ray scene ray_orig ray_dir lights depth))
         \<le> (2 ^ (nat depth + 1) - 1) * (1 + length lights)
   \<and> (calls (Trace_call scene' ray_orig' ray_dir' lights' depth') caller \<longrightarrow>
         (\<exists>d hl hn ins mat dp c0.
             caller = Shade_call scene' d hl hn ins mat lights' dp c0
             \<and> 0 < dp \<and> depth' = dp - 1)
       \<or> (\<exists>d hl hn ins mat dp k c.
             caller = Transmit_call scene' d hl hn ins mat lights' dp k c
             \<and> 0 < transmission mat \<and> depth' = dp - 1))
   \<and> (depth \<le> 0 \<longrightarrow>
         RT_trace_ray scene ray_orig ray_dir lights depth =
           (let h = ray_cast scene ray_orig ray_dir in
            if \<not> has_hit h then ([(ray_orig, ray_dir)], Inr zeros)
            else
              let hit_norm = fst (flip_normal (hit_normal h) ray_dir);
                  mat = hit_object h;
                  sl = shade_lights scene ray_dir (hit_location h) hit_norm mat lights
                         (zeros, True)
              in ((ray_orig, ray_dir) # fst sl,
                  case snd sl of
                    Inl e \<Rightarrow> Inl e
                  | Inr st \<Rightarrow>
                      if snd st then
                        Inr (cadd (fst st)
                               (np_array (vmul (diffuse_color mat) (ambient_color scene))))
                      else
                        (case reflectivity_of mat ray_dir hit_norm of
                           Inl e \<Rightarrow> Inl e
                         | Inr k_r \<Rightarrow> Inr (fst st)))))"
proof (intro conjI impI)
  show "terminates (Trace_call scene ray_orig ray_dir lights depth)"
    by (rule all_terminate)
  show "length (fst (RT_trace_ray scene ray_orig ray_dir lights depth))
         \<le> (2 ^ (nat depth + 1) - 1) * (1 + length lights)"
    by (rule rays_bound)
next
  assume "calls (Trace_call scene' ray_orig' ray_dir' lights' depth') caller"
  from trace_called_from [OF this]
  show "(\<exists>d hl hn ins mat dp c0.
             caller = Shade_call scene' d hl hn ins mat lights' dp c0
             \<and> 0 < dp \<and> depth' = dp - 1)
       \<or> (\<exists>d hl hn ins mat dp k c.
             caller = Transmit_call scene' d hl hn ins mat lights' dp k c
             \<and> 0 < transmission mat \<and> depth' = dp - 1)"
    by (elim disjE exE conjE) (simp_all only: HOL.simp_thms ex_simps, blast+)
next
  assume "depth \<le> 0"
  then show "RT_trace_ray scene ray_orig ray_dir lights depth =
           (let h = ray_cast scene ray_orig ray_dir in
            if \<not> has_hit h then ([(ray_orig, ray_dir)], Inr zeros)
            else
              let hit_norm = fst (flip_normal (hit_normal h) ray_dir);
                  mat = hit_object h;
                  sl = shade_lights scene ray_dir (hit_location h) hit_norm mat lights
                         (zeros, True)
              in ((ray_orig, ray_dir) # fst sl,
                  case snd sl of
                    Inl e \<Rightarrow> Inl e
                  | Inr st \<Rightarrow>
                      if snd st then
                        Inr (cadd (fst st)
                               (np_array (vmul (diffuse_color mat) (ambient_color scene))))
                      else
                        (case reflectivity_of mat ray_dir hit_norm of
                           Inl e \<Rightarrow> Inl e
                         | Inr k_r \<Rightarrow> Inr (fst st))))"
    by (simp add: RT_trace_ray_unfold RT_trace_ray_shade_unfold Let_def split: sum.splits)
qed

theorem RT_trace_ray_terminates_witness:
  "calls (Trace_call (demo_scene shiny matte)
            (vadd (0, 0, 0) (smul eps (D_transmit (3 / 4) (4 / 5, 0, - 3 / 5) (0, 0, 1))))
            (D_transmit (3 / 4) (4 / 5, 0, - 3 / 5) (0, 0, 1)) [lamp] (1 - 1))
         (Transmit_call (demo_scene shiny matte) (4 / 5, 0, - 3 / 5) (0, 0, 0) (0, 0, 1) False
            glass [lamp] 1 (1 / 2) zeros)
   \<and> (0 :: int) \<le> 0
   \<and> terminates (Trace_call (demo_scene shiny matte) (0, 0, 1) (0, 0, - 1) [lamp] 0)
   \<and> length (fst (RT_trace_ray (demo_scene shiny matte) (0, 0, 1) (0, 0, - 1) [lamp] 0)) \<le> 2
   \<and> RT_trace_ray (demo_scene shiny matte) (0, 0, 1) (0, 0, - 1) [lamp] 0
       = ([((0, 0, 1), (0, 0, - 1)), ((24 / 25000, 0, 7 / 25000), (24 / 25, 0, 7 / 25))],
          Inr (Some (23 / 25), Some (39 / 50), Some (71 / 100)))"
proof -
  let ?S = "demo_scene shiny matte"
  have c: "calls (Trace_call ?S
            (vadd (0, 0, 0) (smul eps (D_transmit (3 / 4) (4 / 5, 0, - 3 / 5) (0, 0, 1))))
            (D_transmit (3 / 4) (4 / 5, 0, - 3 / 5) (0, 0, 1)) [lamp] (1 - 1))
         (Transmit_call ?S (4 / 5, 0, - 3 / 5) (0, 0, 0) (0, 0, 1) False
            glass [lamp] 1 (1 / 2) zeros)"
    by (rule RT_trace_ray_RT_trace_ray_shade_RT_trace_ray_transmit_rel.intros(4)
              [where b = "3 / 4"])
       (simp_all add: glass_def n_ratio_of_def refraction_indices_def cos_theta_t2_def
          cos_theta_i_def power2_eq_square)
  have d: "(0 :: int) \<le> 0" by simp
  note w = RT_trace_ray_terminates
             [where scene = ?S and ray_orig = "(0, 0, 1)" and ray_dir = "(0, 0, - 1)"
                and lights = "[lamp]" and depth = 0 and scene' = ?S and lights' = "[lamp]"
                and depth' = "1 - 1"
                and ray_dir' = "D_transmit (3 / 4) (4 / 5, 0, - 3 / 5) (0, 0, 1)"
                and ray_orig' = "vadd (0, 0, 0)
                       (smul eps (D_transmit (3 / 4) (4 / 5, 0, - 3 / 5) (0, 0, 1)))"
                and caller = "Transmit_call ?S (4 / 5, 0, - 3 / 5) (0, 0, 0) (0, 0, 1) False
                       glass [lamp] 1 (1 / 2) zeros"]
  have t: "terminates (Trace_call ?S (0, 0, 1) (0, 0, - 1) [lamp] 0)"
    by (rule w [THEN conjunct1])
  have l: "length (fst (RT_trace_ray ?S (0, 0, 1) (0, 0, - 1) [lamp] 0)) \<le> 2"
    using w [THEN conjunct2, THEN conjunct1] by simp
  have "RT_trace_ray ?S (0, 0, 1) (0, 0, - 1) [lamp] 0
       = ([((0, 0, 1), (0, 0, - 1)), ((24 / 25000, 0, 7 / 25000), (24 / 25, 0, 7 / 25))],
          Inr (Some (23 / 25), Some (39 / 50), Some (71 / 100)))"
    using w [THEN conjunct2, THEN conjunct2, THEN conjunct2, THEN mp, OF d]
    by (simp add: demo_floor_hit_0 demo_flip_0 demo_shade_light_0 reflectivity_shiny Let_def)
  then show ?thesis using c d t l by simp
qed

text \<open>
  C5. As the claim states it, for every light of the list, it does not hold: when the
  shading of a light raises \<^verbatim>\<open>ZeroDivisionError\<close> (the light is not occluded and lies
  exactly in the direction of the ray, so the half vector is zero), the loop ends there
  and the lights after it get no shadow ray.
\<close>

theorem RT_trace_ray_shadow_rays_counterexample:
  "has_hit (ray_cast (demo_scene matte shiny) (0, 0, 1) (0, 0, - 1))
   \<and> lamp \<in> set [nadir_lamp, lamp]
   \<and> RT_trace_ray (demo_scene matte shiny) (0, 0, 1) (0, 0, - 1) [nadir_lamp, lamp] 0
       = ([((0, 0, 1), (0, 0, - 1)), ((0, 0, - 1 / 1000), (0, 0, - 1))],
          Inl ZeroDivisionError)
   \<and> (vadd (0, 0, 0) (smul eps (normalized (vsub (location lamp) (0, 0, 0)))),
        normalized (vsub (location lamp) (0, 0, 0)))
       \<notin> set (fst (RT_trace_ray (demo_scene matte shiny) (0, 0, 1) (0, 0, - 1)
                       [nadir_lamp, lamp] 0))"
proof -
  let ?S = "demo_scene matte shiny"
  have h: "has_hit (ray_cast ?S (0, 0, 1) (0, 0, - 1))"
    by (simp add: demo_floor_hit_0)
  have un: "\<not> has_hit (ray_cast ?S (0, 0, - 1 / 1000) (0, 0, - 1))"
    by (simp add: demo_scene_def demo_cast_def miss_def)
  have sl: "shade_lights ?S (0, 0, - 1) (0, 0, 0) (0, 0, 1) matte ([] @ nadir_lamp # [lamp])
              (zeros, True)
            = (map (shadow_ray (0, 0, 0)) ([] @ [nadir_lamp]), Inl ZeroDivisionError)"
    by (rule shade_lights_first_raise)
       (simp_all add: demo_shadow_nadir demo_scene_def demo_cast_def miss_def)
  have r: "RT_trace_ray ?S (0, 0, 1) (0, 0, - 1) [nadir_lamp, lamp] 0
       = ([((0, 0, 1), (0, 0, - 1)), ((0, 0, - 1 / 1000), (0, 0, - 1))],
          Inl ZeroDivisionError)"
    using sl
    by (simp add: RT_trace_ray_unfold RT_trace_ray_shade_unfold demo_floor_hit_0 demo_flip_0
          demo_shadow_nadir Let_def del: shade_lights.simps)
  have s: "(vadd (0, 0, 0) (smul eps (normalized (vsub (location lamp) (0, 0, 0)))),
        normalized (vsub (location lamp) (0, 0, 0))) = ((24 / 25000, 0, 7 / 25000), (24 / 25, 0, 7 / 25))"
    by (simp add: lamp_def normalized_lamp_0 eps_def)
  show ?thesis
    unfolding r s using h by simp
qed

text \<open>
  C5, amended. At a hit, the shadow ray of a light starts at \<open>hit_loc + eps * light_dir\<close>
  and has the direction \<open>light_dir\<close>, the normalized vector from the hit point to the light;
  the oracle is asked for any hit along it, without a bound on the distance. When the
  shading of no light raises, \<open>RT_trace_ray\<close> casts, right after the primary ray, one shadow
  ray for every light of the list, in the order of the list. When the shading of a light
  raises, the shadow rays of the lights up to and including that one are cast, and the
  call raises. A light whose shadow ray hits anything contributes exactly nothing: the
  loop ends with the colour and the flag that it ends with on the list without the
  occluded lights, and at a depth of 0 so does \<open>RT_trace_ray\<close>.
\<close>

theorem RT_trace_ray_shadow_rays:
  assumes "has_hit (ray_cast scene ray_orig ray_dir)"
    and "hit_loc = hit_location (ray_cast scene ray_orig ray_dir)"
  shows
   "shadow_ray hit_loc light
      = (vadd hit_loc (smul eps (normalized (vsub (location light) hit_loc))),
         normalized (vsub (location light) hit_loc))
    \<and> ((\<forall>l \<in> set lights.
           has_hit (ray_cast scene (fst (shadow_ray hit_loc l)) (snd (shadow_ray hit_loc l)))
           \<or> snd (shadow_ray hit_loc l) \<noteq> ray_dir)
         \<longrightarrow> take (Suc (length lights)) (fst (RT_trace_ray scene ray_orig ray_dir lights depth))
               = (ray_orig, ray_dir) # map (shadow_ray hit_loc) lights)
    \<and> (lights = pre @ light # post
         \<and> (\<forall>l \<in> set pre.
               has_hit (ray_cast scene (fst (shadow_ray hit_loc l)) (snd (shadow_ray hit_loc l)))
               \<or> snd (shadow_ray hit_loc l) \<noteq> ray_dir)
         \<and> \<not> has_hit (ray_cast scene (fst (shadow_ray hit_loc light))
                          (snd (shadow_ray hit_loc light)))
         \<and> snd (shadow_ray hit_loc light) = ray_dir
         \<longrightarrow> RT_trace_ray scene ray_orig ray_dir lights depth
               = ((ray_orig, ray_dir) # map (shadow_ray hit_loc) (pre @ [light]),
                  Inl ZeroDivisionError))
    \<and> snd (shade_lights scene ray_dir hit_loc hit_norm mat lights st)
        = snd (shade_lights scene ray_dir hit_loc hit_norm mat
                 (filter (\<lambda>l. \<not> has_hit (ray_cast scene (fst (shadow_ray hit_loc l))
                                             (snd (shadow_ray hit_loc l)))) lights) st)
    \<and> (depth \<le> 0 \<longrightarrow>
          snd (RT_trace_ray scene ray_orig ray_dir lights depth)
            = snd (RT_trace_ray scene ray_orig ray_dir
                     (filter (\<lambda>l. \<not> has_hit (ray_cast scene (fst (shadow_ray hit_loc l))
                                                 (snd (shadow_ray hit_loc l)))) lights)
                     depth))"
proof (intro conjI impI)
  let ?h = "ray_cast scene ray_orig ray_dir"
  let ?n = "fst (flip_normal (hit_normal ?h) ray_dir)"
  let ?ins = "snd (flip_normal (hit_normal ?h) ray_dir)"
  let ?occ = "\<lambda>l. has_hit (ray_cast scene (fst (shadow_ray hit_loc l))
                               (snd (shadow_ray hit_loc l)))"
  have tr: "RT_trace_ray scene ray_orig ray_dir ls depth =
          ((ray_orig, ray_dir)
             # fst (RT_trace_ray_shade scene ray_dir hit_loc ?n ?ins (hit_object ?h) ls depth
                      zeros),
           snd (RT_trace_ray_shade scene ray_dir hit_loc ?n ?ins (hit_object ?h) ls depth
                  zeros))" for ls
    using assms by (simp add: RT_trace_ray_unfold Let_def)
  show "shadow_ray hit_loc light
      = (vadd hit_loc (smul eps (normalized (vsub (location light) hit_loc))),
         normalized (vsub (location light) hit_loc))"
    by (simp add: shadow_ray_def Let_def)
  show "snd (shade_lights scene ray_dir hit_loc hit_norm mat lights st)
        = snd (shade_lights scene ray_dir hit_loc hit_norm mat (filter (\<lambda>l. \<not> ?occ l) lights) st)"
    by (rule shade_lights_filter)
  {
    assume a: "\<forall>l \<in> set lights. ?occ l \<or> snd (shadow_ray hit_loc l) \<noteq> ray_dir"
    from shade_lights_no_raise [OF a] obtain st' where
      sl: "shade_lights scene ray_dir hit_loc ?n (hit_object ?h) lights (zeros, True)
             = (map (shadow_ray hit_loc) lights, Inr st')"
      by blast
    have "take (length lights)
            (fst (RT_trace_ray_shade scene ray_dir hit_loc ?n ?ins (hit_object ?h) lights depth
                    zeros))
          = map (shadow_ray hit_loc) lights"
      using fst_shade_prefix [of scene ray_dir hit_loc ?n "hit_object ?h" lights zeros ?ins depth]
      by (simp add: sl)
    then show "take (Suc (length lights)) (fst (RT_trace_ray scene ray_orig ray_dir lights depth))
               = (ray_orig, ray_dir) # map (shadow_ray hit_loc) lights"
      by (simp add: tr)
  }
  {
    assume b: "lights = pre @ light # post
         \<and> (\<forall>l \<in> set pre. ?occ l \<or> snd (shadow_ray hit_loc l) \<noteq> ray_dir)
         \<and> \<not> ?occ light
         \<and> snd (shadow_ray hit_loc light) = ray_dir"
    then have sl: "shade_lights scene ray_dir hit_loc ?n (hit_object ?h) lights (zeros, True)
           = (map (shadow_ray hit_loc) (pre @ [light]), Inl ZeroDivisionError)"
      using shade_lights_first_raise [of pre scene hit_loc ray_dir light ?n "hit_object ?h" post
              "(zeros, True)"]
      by blast
    show "RT_trace_ray scene ray_orig ray_dir lights depth
               = ((ray_orig, ray_dir) # map (shadow_ray hit_loc) (pre @ [light]),
                  Inl ZeroDivisionError)"
      using shade_raises [of scene ray_dir hit_loc ?n "hit_object ?h" lights zeros
                            ZeroDivisionError ?ins depth]
      by (simp add: tr sl)
  }
  {
    assume "depth \<le> 0"
    then have d: "\<not> 0 < depth" by simp
    show "snd (RT_trace_ray scene ray_orig ray_dir lights depth)
            = snd (RT_trace_ray scene ray_orig ray_dir (filter (\<lambda>l. \<not> ?occ l) lights) depth)"
      using shade_lights_filter [of scene ray_dir hit_loc ?n "hit_object ?h" lights "(zeros, True)"]
      by (simp add: tr snd_shade_depth_0 [OF d])
  }
qed

text \<open>The witness: seen from the floor point (48, 0, 0), the patch lies behind the lamp,
  twice as far away, and still occludes it.\<close>

theorem RT_trace_ray_shadow_rays_witness:
  "has_hit (ray_cast (demo_scene matte shiny) (48, 0, 1) (0, 0, - 1))
   \<and> (48, 0, 0) = hit_location (ray_cast (demo_scene matte shiny) (48, 0, 1) (0, 0, - 1))
   \<and> has_hit (ray_cast (demo_scene matte shiny)
        (fst (shadow_ray (48, 0, 0) lamp)) (snd (shadow_ray (48, 0, 0) lamp)))
   \<and> length_squared (vsub (location lamp) (48, 0, 0))
       < length_squared (vsub (hit_location (ray_cast (demo_scene matte shiny)
            (fst (shadow_ray (48, 0, 0) lamp)) (snd (shadow_ray (48, 0, 0) lamp)))) (48, 0, 0))
   \<and> (0 :: int) \<le> 0
   \<and> take 2 (fst (RT_trace_ray (demo_scene matte shiny) (48, 0, 1) (0, 0, - 1) [lamp] 0))
       = [((48, 0, 1), (0, 0, - 1)),
          ((48 - 24 / 25000, 0, 7 / 25000), (- 24 / 25, 0, 7 / 25))]
   \<and> snd (RT_trace_ray (demo_scene matte shiny) (48, 0, 1) (0, 0, - 1) [lamp] 0)
       = snd (RT_trace_ray (demo_scene matte shiny) (48, 0, 1) (0, 0, - 1) [] 0)"
proof -
  let ?S = "demo_scene matte shiny"
  have h: "has_hit (ray_cast ?S (48, 0, 1) (0, 0, - 1))"
    by (simp add: demo_floor_hit_48)
  have hl: "(48, 0, 0) = hit_location (ray_cast ?S (48, 0, 1) (0, 0, - 1))"
    by (simp add: demo_floor_hit_48)
  have occ: "has_hit (ray_cast ?S (fst (shadow_ray (48, 0, 0) lamp))
                        (snd (shadow_ray (48, 0, 0) lamp)))"
    by (simp add: demo_shadow_48 demo_scene_def demo_cast_def)
  have far: "length_squared (vsub (location lamp) (48, 0, 0))
       < length_squared (vsub (hit_location (ray_cast ?S
            (fst (shadow_ray (48, 0, 0) lamp)) (snd (shadow_ray (48, 0, 0) lamp)))) (48, 0, 0))"
    by (simp add: demo_shadow_48 demo_scene_def demo_cast_def location_lamp length_squared_def)
  have d: "(0 :: int) \<le> 0" by simp
  note w = RT_trace_ray_shadow_rays [OF h hl, where lights = "[lamp]" and depth = 0
             and light = lamp and pre = "[]" and post = "[]" and hit_norm = "(0, 0, 1)"
             and mat = matte and st = "(zeros, True)"]
  have a: "take 2 (fst (RT_trace_ray ?S (48, 0, 1) (0, 0, - 1) [lamp] 0))
       = [((48, 0, 1), (0, 0, - 1)),
          ((48 - 24 / 25000, 0, 7 / 25000), (- 24 / 25, 0, 7 / 25))]"
    using w [THEN conjunct2, THEN conjunct1] occ
    by (simp add: demo_shadow_48 numeral_2_eq_2)
  have c: "snd (RT_trace_ray ?S (48, 0, 1) (0, 0, - 1) [lamp] 0)
       = snd (RT_trace_ray ?S (48, 0, 1) (0, 0, - 1) [] 0)"
    using w [THEN conjunct2, THEN conjunct2, THEN conjunct2, THEN conjunct2, THEN mp, OF d] occ
    by simp
  show ?thesis
    using h hl occ far d a c by blast
qed



text \<open>
  C7. At a hit on which a light shines, and after the reflection ray has returned a
  colour: with \<open>depth \<le> 0\<close> or \<open>transmission \<le> 0\<close> the transmission branch is not entered.
  Otherwise, with \<open>(n1, n2) = (ior, 1)\<close> inside the object and \<open>(1, ior)\<close> outside,
  \<open>ratio = n1 / n2\<close> (so \<open>n2\<close> is not zero), \<open>cos_i = - dot hit_norm ray_dir\<close> and
  \<open>cos_t2 = 1 - ratio\<^sup>2 * (1 - cos_i\<^sup>2)\<close>: when \<open>cos_t2 < 0\<close> no ray is cast, nothing is
  added and no error is raised; when \<open>cos_t2 \<ge> 0\<close> the ray with the direction
  \<open>D = ratio * ray_dir + (ratio * cos_i - sqrt cos_t2) * hit_norm\<close> is traced from
  \<open>hit_loc + eps * D\<close> with \<open>depth - 1\<close>, and \<open>(1 - k_r) * transmission\<close> times its colour is
  added.
\<close>

theorem RT_trace_ray_transmission:
  assumes "has_hit (ray_cast scene ray_orig ray_dir)"
    and "hit_loc = hit_location (ray_cast scene ray_orig ray_dir)"
    and "mat = hit_object (ray_cast scene ray_orig ray_dir)"
    and "(hit_norm, inside) = flip_normal (hit_normal (ray_cast scene ray_orig ray_dir)) ray_dir"
    and "shade_lights scene ray_dir hit_loc hit_norm mat lights (zeros, True)
           = (srays, Inr (color, False))"
    and "reflectivity_of mat ray_dir hit_norm = Inr k_r"
    and "RT_trace_ray scene (vadd hit_loc (smul eps (D_reflect ray_dir hit_norm)))
           (D_reflect ray_dir hit_norm) lights (depth - 1) = (rrays, Inr reflect_color)"
  shows
    "let n1 = (if inside then ior mat else 1);
         n2 = (if inside then 1 else ior mat);
         ratio = n1 / n2;
         cos_i = - dot hit_norm ray_dir;
         cos_t2 = 1 - ratio ^ 2 * (1 - cos_i ^ 2);
         D = vadd (smul ratio ray_dir) (smul (ratio * cos_i - sqrt cos_t2) hit_norm);
         transmitted = RT_trace_ray scene (vadd hit_loc (smul eps D)) D lights (depth - 1);
         color_r = cadd color (cscale (Some k_r) reflect_color);
         result = RT_trace_ray scene ray_orig ray_dir lights depth
     in (\<not> 0 < depth \<longrightarrow> result = ((ray_orig, ray_dir) # srays, Inr color))
        \<and> (0 < depth \<and> \<not> 0 < transmission mat \<longrightarrow>
              result = ((ray_orig, ray_dir) # srays @ rrays, Inr color_r))
        \<and> (0 < depth \<and> 0 < transmission mat \<and> n2 \<noteq> 0 \<and> cos_t2 < 0 \<longrightarrow>
              result = ((ray_orig, ray_dir) # srays @ rrays, Inr color_r))
        \<and> (0 < depth \<and> 0 < transmission mat \<and> n2 \<noteq> 0 \<and> 0 \<le> cos_t2 \<longrightarrow>
              result =
                ((ray_orig, ray_dir) # srays @ rrays @ fst transmitted,
                 case snd transmitted of
                   Inl e \<Rightarrow> Inl e
                 | Inr transmit_color \<Rightarrow>
                     Inr (cadd color_r
                            (cscale (Some ((1 - k_r) * transmission mat)) transmit_color))))"
  by (simp add: RT_trace_ray_lit [OF assms(1-6)] assms(7) RT_trace_ray_transmit_unfold
        n_ratio_of_def refraction_indices_def cos_theta_t2_def cos_theta_i_def D_transmit_def
        Let_def split: sum.split)

theorem RT_trace_ray_transmission_witness:
  "has_hit (ray_cast (demo_scene matte crystal) (- 4, 0, 11) (4 / 5, 0, 3 / 5))
   \<and> (0, 0, 14) = hit_location (ray_cast (demo_scene matte crystal) (- 4, 0, 11) (4 / 5, 0, 3 / 5))
   \<and> crystal = hit_object (ray_cast (demo_scene matte crystal) (- 4, 0, 11) (4 / 5, 0, 3 / 5))
   \<and> ((0, 0, - 1), True)
       = flip_normal (hit_normal (ray_cast (demo_scene matte crystal) (- 4, 0, 11)
                        (4 / 5, 0, 3 / 5))) (4 / 5, 0, 3 / 5)
   \<and> shade_lights (demo_scene matte crystal) (4 / 5, 0, 3 / 5) (0, 0, 14) (0, 0, - 1) crystal
         [top_lamp] (zeros, True)
       = ([((- (4 / 5000), 0, 14 + 3 / 5000), (- (4 / 5), 0, 3 / 5))],
          Inr ((Some (- (3 / 5)), Some (- (3 / 10)), Some (- (3 / 20))), False))
   \<and> reflectivity_of crystal (4 / 5, 0, 3 / 5) (0, 0, - 1) = Inr (1 / 2)
   \<and> RT_trace_ray (demo_scene matte crystal)
         (vadd (0, 0, 14) (smul eps (D_reflect (4 / 5, 0, 3 / 5) (0, 0, - 1))))
         (D_reflect (4 / 5, 0, 3 / 5) (0, 0, - 1)) [top_lamp] (1 - 1)
       = ([((4 / 5000, 0, 14 - 3 / 5000), (4 / 5, 0, - (3 / 5))),
           ((56 / 3 - 4 / 5000, 0, 3 / 5000), (- (4 / 5), 0, 3 / 5))],
          Inr (Some (1 / 10), Some (1 / 20), Some (1 / 40)))
   \<and> (0 :: int) < 1 \<and> 0 < transmission crystal \<and> (1 :: real) \<noteq> 0
   \<and> 1 - (ior crystal / 1) ^ 2 * (1 - (- dot (0, 0, - 1) (4 / 5, 0, 3 / 5)) ^ 2) < 0
   \<and> RT_trace_ray (demo_scene matte crystal) (- 4, 0, 11) (4 / 5, 0, 3 / 5) [top_lamp] 1
       = ([((- 4, 0, 11), (4 / 5, 0, 3 / 5)),
           ((- (4 / 5000), 0, 14 + 3 / 5000), (- (4 / 5), 0, 3 / 5)),
           ((4 / 5000, 0, 14 - 3 / 5000), (4 / 5, 0, - (3 / 5))),
           ((56 / 3 - 4 / 5000, 0, 3 / 5000), (- (4 / 5), 0, 3 / 5))],
          Inr (Some (- (11 / 20)), Some (- (11 / 40)), Some (- (11 / 80))))
   \<and> 0 \<le> 1 - (1 / ior crystal) ^ 2 * (1 - (- dot (0, 0, 1) (0, 0, - 1)) ^ 2)
   \<and> ior crystal \<noteq> 0
   \<and> RT_trace_ray (demo_scene crystal matte) (0, 0, 1) (0, 0, - 1) [lamp] 1
       = ([((0, 0, 1), (0, 0, - 1)),
           ((24 / 25000, 0, 7 / 25000), (24 / 25, 0, 7 / 25)),
           ((0, 0, 1 / 1000), (0, 0, 1)),
           ((24 / 25000, 0, 14 - 7 / 25000), (24 / 25, 0, - 7 / 25)),
           ((0, 0, - (1 / 1000)), (0, 0, - 1))],
          Inr (Some (97 / 100), Some (161 / 200), Some (289 / 400)))"
proof -
  let ?S = "demo_scene matte crystal"
  let ?d = "(4 / 5, 0, 3 / 5) :: vec"
  have hit: "has_hit (ray_cast ?S (- 4, 0, 11) ?d)"
    and hl: "(0, 0, 14) = hit_location (ray_cast ?S (- 4, 0, 11) ?d)"
    and mat: "crystal = hit_object (ray_cast ?S (- 4, 0, 11) ?d)"
    and fl: "((0, 0, - 1), True) = flip_normal (hit_normal (ray_cast ?S (- 4, 0, 11) ?d)) ?d"
    by (simp_all add: demo_patch_hit_slanted demo_flip_patch)
  have sl: "shade_lights ?S ?d (0, 0, 14) (0, 0, - 1) crystal [top_lamp] (zeros, True)
       = ([((- (4 / 5000), 0, 14 + 3 / 5000), (- (4 / 5), 0, 3 / 5))],
          Inr ((Some (- (3 / 5)), Some (- (3 / 10)), Some (- (3 / 20))), False))"
    by (rule demo_shade_lights_patch) (simp_all add: crystal_def)
  have kr: "reflectivity_of crystal ?d (0, 0, - 1) = Inr (1 / 2)"
    by (rule reflectivity_crystal)
  have dr: "D_reflect ?d (0, 0, - 1) = (4 / 5, 0, - (3 / 5))"
    by (simp add: D_reflect_def)
  have rr: "RT_trace_ray ?S (vadd (0, 0, 14) (smul eps (D_reflect ?d (0, 0, - 1))))
         (D_reflect ?d (0, 0, - 1)) [top_lamp] (1 - 1)
       = ([((4 / 5000, 0, 14 - 3 / 5000), (4 / 5, 0, - (3 / 5))),
           ((56 / 3 - 4 / 5000, 0, 3 / 5000), (- (4 / 5), 0, 3 / 5))],
          Inr (Some (1 / 10), Some (1 / 20), Some (1 / 40)))"
    unfolding dr using demo_floor_from_patch [of matte crystal] by (simp add: eps_def matte_def)
  have c: "(0 :: int) < 1" "0 < transmission crystal" "(1 :: real) \<noteq> 0" "ior crystal \<noteq> 0"
    by (simp_all add: crystal_def)
  have tir: "1 - (ior crystal / 1) ^ 2 * (1 - (- dot (0, 0, - 1) ?d) ^ 2) < 0"
    by (simp add: crystal_def power2_eq_square)
  note w = RT_trace_ray_transmission [OF hit hl mat fl sl kr rr, unfolded Let_def,
             THEN conjunct2, THEN conjunct2, THEN conjunct1, THEN mp]
  have r1: "RT_trace_ray ?S (- 4, 0, 11) ?d [top_lamp] 1
       = ([((- 4, 0, 11), (4 / 5, 0, 3 / 5)),
           ((- (4 / 5000), 0, 14 + 3 / 5000), (- (4 / 5), 0, 3 / 5)),
           ((4 / 5000, 0, 14 - 3 / 5000), (4 / 5, 0, - (3 / 5))),
           ((56 / 3 - 4 / 5000, 0, 3 / 5000), (- (4 / 5), 0, 3 / 5))],
          Inr (Some (- (11 / 20)), Some (- (11 / 40)), Some (- (11 / 80))))"
    using w c tir by simp
  have nt: "0 \<le> 1 - (1 / ior crystal) ^ 2 * (1 - (- dot (0, 0, 1) (0, 0, - 1)) ^ 2)"
    by (simp add: crystal_def)
  have r2: "RT_trace_ray (demo_scene crystal matte) (0, 0, 1) (0, 0, - 1) [lamp] 1
       = ([((0, 0, 1), (0, 0, - 1)),
           ((24 / 25000, 0, 7 / 25000), (24 / 25, 0, 7 / 25)),
           ((0, 0, 1 / 1000), (0, 0, 1)),
           ((24 / 25000, 0, 14 - 7 / 25000), (24 / 25, 0, - 7 / 25)),
           ((0, 0, - (1 / 1000)), (0, 0, - 1))],
          Inr (Some (97 / 100), Some (161 / 200), Some (289 / 400)))"
    using demo_lit_floor_depth_1 [of crystal "1 / 2" matte] reflectivity_crystal
    by (simp add: crystal_def matte_def zeros_def)
  show ?thesis
    using hit hl mat fl sl kr rr c(1-3) tir r1 nt c(4) r2 by (intro conjI)
qed

text \<open>
  C8. The normal that the shading uses is the oracle's normal, negated when its dot
  product with the direction of the ray is positive, and the flag \<^verbatim>\<open>ray_inside_object\<close>
  is that test. Its dot product with the direction is at most zero. \<open>RT_trace_ray\<close> hands
  this normal and this flag, and not the oracle's normal, to everything that follows, and
  every call of the shading part is made this way. In the transmission branch the
  refraction indices are \<open>(ior, 1)\<close> when the test was positive and \<open>(1, ior)\<close> when it was
  not: the transmitted ray has the direction that this pair gives.
\<close>

theorem normal_orientation:
  assumes "has_hit (ray_cast scene ray_orig ray_dir)"
    and "h = ray_cast scene ray_orig ray_dir"
    and "hit_norm = (if dot (hit_normal h) ray_dir > 0 then vneg (hit_normal h) else hit_normal h)"
    and "ray_inside_object = (dot (hit_normal h) ray_dir > 0)"
  shows
    "dot hit_norm ray_dir \<le> 0
     \<and> RT_trace_ray scene ray_orig ray_dir lights depth =
         ((ray_orig, ray_dir)
            # fst (RT_trace_ray_shade scene ray_dir (hit_location h) hit_norm ray_inside_object
                     (hit_object h) lights depth zeros),
          snd (RT_trace_ray_shade scene ray_dir (hit_location h) hit_norm ray_inside_object
                 (hit_object h) lights depth zeros))
     \<and> (calls (Shade_call scene' d' hl' n' ins' m' lights' depth' c') caller \<longrightarrow>
          dot n' d' \<le> 0
          \<and> (\<exists>o'. caller = Trace_call scene' o' d' lights' depth'
                \<and> ins' = (dot (hit_normal (ray_cast scene' o' d')) d' > 0)
                \<and> n' = (if dot (hit_normal (ray_cast scene' o' d')) d' > 0
                        then vneg (hit_normal (ray_cast scene' o' d'))
                        else hit_normal (ray_cast scene' o' d'))))
     \<and> (shade_lights scene ray_dir (hit_location h) hit_norm (hit_object h) lights
            (zeros, True) = (srays, Inr (color, False))
         \<and> reflectivity_of (hit_object h) ray_dir hit_norm = Inr k_r
         \<and> RT_trace_ray scene (vadd (hit_location h) (smul eps (D_reflect ray_dir hit_norm)))
              (D_reflect ray_dir hit_norm) lights (depth - 1) = (rrays, Inr reflect_color)
         \<and> 0 < depth \<and> 0 < transmission (hit_object h)
         \<and> (if ray_inside_object then 1 else ior (hit_object h)) \<noteq> 0
         \<and> 0 \<le> cos_theta_t2
                 ((if ray_inside_object then ior (hit_object h) else 1)
                    / (if ray_inside_object then 1 else ior (hit_object h))) ray_dir hit_norm
         \<longrightarrow>
           (let (n1, n2) = (if dot (hit_normal h) ray_dir > 0 then (ior (hit_object h), 1)
                            else (1, ior (hit_object h)));
                D = D_transmit (n1 / n2) ray_dir hit_norm
            in fst (RT_trace_ray scene ray_orig ray_dir lights depth) =
                 (ray_orig, ray_dir) # srays @ rrays
                   @ fst (RT_trace_ray scene (vadd (hit_location h) (smul eps D)) D lights
                            (depth - 1))))"
proof (intro conjI impI)
  have fl: "(hit_norm, ray_inside_object) = flip_normal (hit_normal h) ray_dir"
    using assms(3,4) by (simp add: flip_normal_def)
  show "dot hit_norm ray_dir \<le> 0"
    using flip_normal_facts(1) [of "hit_normal h" ray_dir] fl by (metis fst_conv)
  show "RT_trace_ray scene ray_orig ray_dir lights depth =
         ((ray_orig, ray_dir)
            # fst (RT_trace_ray_shade scene ray_dir (hit_location h) hit_norm ray_inside_object
                     (hit_object h) lights depth zeros),
          snd (RT_trace_ray_shade scene ray_dir (hit_location h) hit_norm ray_inside_object
                 (hit_object h) lights depth zeros))"
    using assms by (simp add: RT_trace_ray_unfold Let_def flip_normal_def)
  {
    assume c: "calls (Shade_call scene' d' hl' n' ins' m' lights' depth' c') caller"
    from shade_called_from [OF c] obtain o' where
      o: "caller = Trace_call scene' o' d' lights' depth'"
         "(n', ins') = flip_normal (hit_normal (ray_cast scene' o' d')) d'"
      by blast
    show "dot n' d' \<le> 0"
      using flip_normal_facts(1) [of "hit_normal (ray_cast scene' o' d')" d'] o(2)
      by (metis fst_conv)
    show "\<exists>o'. caller = Trace_call scene' o' d' lights' depth'
                \<and> ins' = (dot (hit_normal (ray_cast scene' o' d')) d' > 0)
                \<and> n' = (if dot (hit_normal (ray_cast scene' o' d')) d' > 0
                        then vneg (hit_normal (ray_cast scene' o' d'))
                        else hit_normal (ray_cast scene' o' d'))"
      using o by (intro exI [of _ o']) (simp add: flip_normal_def split: if_splits)
  }
  {
    assume a: "shade_lights scene ray_dir (hit_location h) hit_norm (hit_object h) lights
            (zeros, True) = (srays, Inr (color, False))
         \<and> reflectivity_of (hit_object h) ray_dir hit_norm = Inr k_r
         \<and> RT_trace_ray scene (vadd (hit_location h) (smul eps (D_reflect ray_dir hit_norm)))
              (D_reflect ray_dir hit_norm) lights (depth - 1) = (rrays, Inr reflect_color)
         \<and> 0 < depth \<and> 0 < transmission (hit_object h)
         \<and> (if ray_inside_object then 1 else ior (hit_object h)) \<noteq> 0
         \<and> 0 \<le> cos_theta_t2
                 ((if ray_inside_object then ior (hit_object h) else 1)
                    / (if ray_inside_object then 1 else ior (hit_object h))) ray_dir hit_norm"
    have l: "RT_trace_ray scene ray_orig ray_dir lights depth =
       (let tr = RT_trace_ray_transmit scene ray_dir (hit_location h) hit_norm ray_inside_object
                   (hit_object h) lights depth k_r (cadd color (cscale (Some k_r) reflect_color))
        in ((ray_orig, ray_dir) # srays @ rrays @ fst tr, snd tr))"
      using RT_trace_ray_lit [of scene ray_orig ray_dir "hit_location h" "hit_object h" hit_norm
               ray_inside_object lights srays color k_r depth] a assms(1,2) fl
      by (simp add: Let_def)
    show "(let (n1, n2) = (if dot (hit_normal h) ray_dir > 0 then (ior (hit_object h), 1)
                            else (1, ior (hit_object h)));
                D = D_transmit (n1 / n2) ray_dir hit_norm
            in fst (RT_trace_ray scene ray_orig ray_dir lights depth) =
                 (ray_orig, ray_dir) # srays @ rrays
                   @ fst (RT_trace_ray scene (vadd (hit_location h) (smul eps D)) D lights
                            (depth - 1)))"
    proof (cases "dot (hit_normal h) ray_dir > 0")
      case True
      then have i: "ray_inside_object" using assms(4) by simp
      show ?thesis
        using a True
        by (simp add: l i RT_trace_ray_transmit_unfold n_ratio_of_def refraction_indices_def
              Let_def)
    next
      case False
      then have i: "\<not> ray_inside_object" using assms(4) by simp
      show ?thesis
        using a False
        by (simp add: l i RT_trace_ray_transmit_unfold n_ratio_of_def refraction_indices_def
              Let_def)
    qed
  }
qed

theorem normal_orientation_witness:
  "has_hit (ray_cast (demo_scene matte crystal) (- 4, 0, 11) (4 / 5, 0, 3 / 5))
   \<and> 0 < dot (hit_normal (ray_cast (demo_scene matte crystal) (- 4, 0, 11) (4 / 5, 0, 3 / 5)))
           (4 / 5, 0, 3 / 5)
   \<and> (0, 0, - 1)
       = vneg (hit_normal (ray_cast (demo_scene matte crystal) (- 4, 0, 11) (4 / 5, 0, 3 / 5)))
   \<and> dot (0, 0, - 1) (4 / 5, 0, 3 / 5) \<le> 0
   \<and> RT_trace_ray (demo_scene matte crystal) (- 4, 0, 11) (4 / 5, 0, 3 / 5) [top_lamp] 1
       = (((- 4, 0, 11), (4 / 5, 0, 3 / 5))
            # fst (RT_trace_ray_shade (demo_scene matte crystal) (4 / 5, 0, 3 / 5) (0, 0, 14)
                     (0, 0, - 1) True crystal [top_lamp] 1 zeros),
          snd (RT_trace_ray_shade (demo_scene matte crystal) (4 / 5, 0, 3 / 5) (0, 0, 14)
                 (0, 0, - 1) True crystal [top_lamp] 1 zeros))
   \<and> calls (Shade_call (demo_scene matte crystal) (4 / 5, 0, 3 / 5) (0, 0, 14) (0, 0, - 1) True
               crystal [top_lamp] 1 zeros)
            (Trace_call (demo_scene matte crystal) (- 4, 0, 11) (4 / 5, 0, 3 / 5) [top_lamp] 1)
   \<and> has_hit (ray_cast (demo_scene crystal matte) (0, 0, 1) (0, 0, - 1))
   \<and> \<not> 0 < dot (hit_normal (ray_cast (demo_scene crystal matte) (0, 0, 1) (0, 0, - 1)))
               (0, 0, - 1)
   \<and> shade_lights (demo_scene crystal matte) (0, 0, - 1) (0, 0, 0) (0, 0, 1) crystal [lamp]
         (zeros, True)
       = ([((24 / 25000, 0, 7 / 25000), (24 / 25, 0, 7 / 25))],
          Inr ((Some (23 / 25), Some (39 / 50), Some (71 / 100)), False))
   \<and> reflectivity_of crystal (0, 0, - 1) (0, 0, 1) = Inr (1 / 2)
   \<and> RT_trace_ray (demo_scene crystal matte)
         (vadd (0, 0, 0) (smul eps (D_reflect (0, 0, - 1) (0, 0, 1))))
         (D_reflect (0, 0, - 1) (0, 0, 1)) [lamp] (1 - 1)
       = ([((0, 0, 1 / 1000), (0, 0, 1)),
           ((24 / 25000, 0, 14 - 7 / 25000), (24 / 25, 0, - 7 / 25))],
          Inr (Some (1 / 10), Some (1 / 20), Some (1 / 40)))
   \<and> (0 :: int) < 1 \<and> 0 < transmission crystal \<and> ior crystal \<noteq> 0
   \<and> 0 \<le> cos_theta_t2 (1 / ior crystal) (0, 0, - 1) (0, 0, 1)
   \<and> fst (RT_trace_ray (demo_scene crystal matte) (0, 0, 1) (0, 0, - 1) [lamp] 1)
       = [((0, 0, 1), (0, 0, - 1)),
          ((24 / 25000, 0, 7 / 25000), (24 / 25, 0, 7 / 25)),
          ((0, 0, 1 / 1000), (0, 0, 1)),
          ((24 / 25000, 0, 14 - 7 / 25000), (24 / 25, 0, - 7 / 25))]
           @ fst (RT_trace_ray (demo_scene crystal matte)
                    (vadd (0, 0, 0)
                       (smul eps (D_transmit (1 / ior crystal) (0, 0, - 1) (0, 0, 1))))
                    (D_transmit (1 / ior crystal) (0, 0, - 1) (0, 0, 1)) [lamp] (1 - 1))"
proof -
  let ?S = "demo_scene matte crystal"
  let ?d = "(4 / 5, 0, 3 / 5) :: vec"
  let ?T = "demo_scene crystal matte"
  have hit: "has_hit (ray_cast ?S (- 4, 0, 11) ?d)"
    and pos: "0 < dot (hit_normal (ray_cast ?S (- 4, 0, 11) ?d)) ?d"
    and neg: "(0, 0, - 1) = vneg (hit_normal (ray_cast ?S (- 4, 0, 11) ?d))"
    by (simp_all add: demo_patch_hit_slanted)
  have hn: "(0, 0, - 1) = (if dot (hit_normal (ray_cast ?S (- 4, 0, 11) ?d)) ?d > 0
                          then vneg (hit_normal (ray_cast ?S (- 4, 0, 11) ?d))
                          else hit_normal (ray_cast ?S (- 4, 0, 11) ?d))"
    and ins: "True = (dot (hit_normal (ray_cast ?S (- 4, 0, 11) ?d)) ?d > 0)"
    by (simp_all add: demo_patch_hit_slanted)
  note w1 = normal_orientation [OF hit refl hn ins]
  have a: "dot (0, 0, - 1) ?d \<le> 0"
    by (rule w1 [THEN conjunct1])
  have b: "RT_trace_ray ?S (- 4, 0, 11) ?d [top_lamp] 1
       = (((- 4, 0, 11), ?d)
            # fst (RT_trace_ray_shade ?S ?d (0, 0, 14) (0, 0, - 1) True crystal [top_lamp] 1 zeros),
          snd (RT_trace_ray_shade ?S ?d (0, 0, 14) (0, 0, - 1) True crystal [top_lamp] 1 zeros))"
    using w1 [THEN conjunct2, THEN conjunct1, of "[top_lamp]" 1]
    by (simp add: demo_patch_hit_slanted)
  have c: "calls (Shade_call ?S ?d (0, 0, 14) (0, 0, - 1) True crystal [top_lamp] 1 zeros)
            (Trace_call ?S (- 4, 0, 11) ?d [top_lamp] 1)"
    using RT_trace_ray_RT_trace_ray_shade_RT_trace_ray_transmit_rel.intros(1)
            [of "ray_cast ?S (- 4, 0, 11) ?d" ?S "(- 4, 0, 11)" ?d zeros "(0, 0, - 1)" True
               "[top_lamp]" 1]
    by (simp add: demo_patch_hit_slanted demo_flip_patch)
  have hit2: "has_hit (ray_cast ?T (0, 0, 1) (0, 0, - 1))"
    and npos: "\<not> 0 < dot (hit_normal (ray_cast ?T (0, 0, 1) (0, 0, - 1))) (0, 0, - 1)"
    by (simp_all add: demo_floor_hit_0)
  have hn2: "(0, 0, 1) = (if dot (hit_normal (ray_cast ?T (0, 0, 1) (0, 0, - 1))) (0, 0, - 1) > 0
                          then vneg (hit_normal (ray_cast ?T (0, 0, 1) (0, 0, - 1)))
                          else hit_normal (ray_cast ?T (0, 0, 1) (0, 0, - 1)))"
    and ins2: "False = (dot (hit_normal (ray_cast ?T (0, 0, 1) (0, 0, - 1))) (0, 0, - 1) > 0)"
    by (simp_all add: demo_floor_hit_0)
  have sl: "shade_lights ?T (0, 0, - 1) (0, 0, 0) (0, 0, 1) crystal [lamp] (zeros, True)
       = ([((24 / 25000, 0, 7 / 25000), (24 / 25, 0, 7 / 25))],
          Inr ((Some (23 / 25), Some (39 / 50), Some (71 / 100)), False))"
    by (rule demo_shade_lights_0) (simp_all add: crystal_def)
  have kr: "reflectivity_of crystal (0, 0, - 1) (0, 0, 1) = Inr (1 / 2)"
    by (rule reflectivity_crystal)
  have dr: "D_reflect (0, 0, - 1) (0, 0, 1) = (0, 0, 1)"
    by (simp add: D_reflect_def)
  have rr: "RT_trace_ray ?T (vadd (0, 0, 0) (smul eps (D_reflect (0, 0, - 1) (0, 0, 1))))
         (D_reflect (0, 0, - 1) (0, 0, 1)) [lamp] (1 - 1)
       = ([((0, 0, 1 / 1000), (0, 0, 1)),
           ((24 / 25000, 0, 14 - 7 / 25000), (24 / 25, 0, - 7 / 25))],
          Inr (Some (1 / 10), Some (1 / 20), Some (1 / 40)))"
    unfolding dr using demo_patch_from_below [of crystal matte] by (simp add: eps_def matte_def)
  have g: "(0 :: int) < 1" "0 < transmission crystal" "ior crystal \<noteq> 0"
    by (simp_all add: crystal_def)
  have ct: "0 \<le> cos_theta_t2 (1 / ior crystal) (0, 0, - 1) (0, 0, 1)"
    by (simp add: cos_theta_t2_def cos_theta_i_def crystal_def)
  note w2 = normal_orientation
             [where srays = "[((24 / 25000, 0, 7 / 25000), (24 / 25, 0, 7 / 25))]"
                and color = "(Some (23 / 25), Some (39 / 50), Some (71 / 100))"
                and k_r = "1 / 2" and lights = "[lamp]" and depth = 1
                and rrays = "[((0, 0, 1 / 1000), (0, 0, 1)),
                              ((24 / 25000, 0, 14 - 7 / 25000), (24 / 25, 0, - 7 / 25))]"
                and reflect_color = "(Some (1 / 10), Some (1 / 20), Some (1 / 40))",
              OF hit2 refl hn2 ins2, THEN conjunct2, THEN conjunct2, THEN conjunct2, THEN mp]
  have e: "fst (RT_trace_ray ?T (0, 0, 1) (0, 0, - 1) [lamp] 1)
       = [((0, 0, 1), (0, 0, - 1)),
          ((24 / 25000, 0, 7 / 25000), (24 / 25, 0, 7 / 25)),
          ((0, 0, 1 / 1000), (0, 0, 1)),
          ((24 / 25000, 0, 14 - 7 / 25000), (24 / 25, 0, - 7 / 25))]
           @ fst (RT_trace_ray ?T
                    (vadd (0, 0, 0)
                       (smul eps (D_transmit (1 / ior crystal) (0, 0, - 1) (0, 0, 1))))
                    (D_transmit (1 / ior crystal) (0, 0, - 1) (0, 0, 1)) [lamp] (1 - 1))"
    using w2 sl kr rr g ct
    by (simp add: demo_floor_hit_0 Let_def del: vadd.simps smul.simps)
  show ?thesis
    using hit pos neg a b c hit2 npos sl kr rr g ct e by (intro conjI)
qed

text \<open>
  C10. At a hit, the shading of a light divides the colour of the light by the squared
  length of the vector from the hit point to the light, and the half vector
  \<open>light_dir - ray_dir\<close> by its norm. The first divisor is zero exactly when the light is at
  the hit point, the second exactly when \<open>light_dir = ray_dir\<close>. When every light of the list
  is occluded or meets both preconditions, the loop over the lights runs to its end
  without a division by zero: it casts the shadow ray of every light and returns a colour,
  whose components are numbers when the specular power is one; at a depth of 0, and with
  the Fresnel division defined, so does \<open>RT_trace_ray\<close>. When the list has a light that is
  not occluded and has \<open>light_dir = ray_dir\<close>, \<open>RT_trace_ray\<close> raises
  \<^verbatim>\<open>ZeroDivisionError\<close>, at any depth. When the list has a light that is not occluded and
  lies at the hit point, \<open>RT_trace_ray\<close> raises \<^verbatim>\<open>ZeroDivisionError\<close> or returns a colour
  with no number in it (the numpy division by zero gives \<^verbatim>\<open>inf\<close> or \<^verbatim>\<open>nan\<close>, which every
  later sum and product keeps).
\<close>

theorem shading_divisions:
  assumes "has_hit (ray_cast scene ray_orig ray_dir)"
    and "hit_loc = hit_location (ray_cast scene ray_orig ray_dir)"
    and "hit_norm = fst (flip_normal (hit_normal (ray_cast scene ray_orig ray_dir)) ray_dir)"
    and "mat = hit_object (ray_cast scene ray_orig ray_dir)"
  shows
   "(length_squared (vsub (location light) hit_loc) = 0 \<longleftrightarrow> location light = hit_loc)
    \<and> (norm_vec (vadd (snd (shadow_ray hit_loc light)) (vneg ray_dir)) = 0
         \<longleftrightarrow> snd (shadow_ray hit_loc light) = ray_dir)
    \<and> ((\<forall>l \<in> set lights.
           has_hit (ray_cast scene (fst (shadow_ray hit_loc l)) (snd (shadow_ray hit_loc l)))
           \<or> (location l \<noteq> hit_loc \<and> snd (shadow_ray hit_loc l) \<noteq> ray_dir))
         \<longrightarrow> (\<exists>st. shade_lights scene ray_dir hit_loc hit_norm mat lights (zeros, True)
                      = (map (shadow_ray hit_loc) lights, Inr st)
                  \<and> ((\<forall>x. float_pow x (specular_hardness mat) \<noteq> None)
                       \<longrightarrow> is_finite (fst st)))
             \<and> (\<not> 0 < depth \<and> (use_fresnel mat \<longrightarrow> ior mat \<noteq> - 1)
                  \<longrightarrow> (\<exists>c. snd (RT_trace_ray scene ray_orig ray_dir lights depth) = Inr c
                          \<and> ((\<forall>x. float_pow x (specular_hardness mat) \<noteq> None)
                               \<longrightarrow> is_finite c))))
    \<and> (light \<in> set lights
         \<and> \<not> has_hit (ray_cast scene (fst (shadow_ray hit_loc light))
                          (snd (shadow_ray hit_loc light)))
         \<and> snd (shadow_ray hit_loc light) = ray_dir
         \<longrightarrow> snd (RT_trace_ray scene ray_orig ray_dir lights depth) = Inl ZeroDivisionError)
    \<and> (light \<in> set lights
         \<and> \<not> has_hit (ray_cast scene (fst (shadow_ray hit_loc light))
                          (snd (shadow_ray hit_loc light)))
         \<and> location light = hit_loc
         \<longrightarrow> snd (RT_trace_ray scene ray_orig ray_dir lights depth) = Inl ZeroDivisionError
             \<or> snd (RT_trace_ray scene ray_orig ray_dir lights depth)
                 = Inr (None, None, None))"
proof -
  let ?occ = "\<lambda>l. has_hit (ray_cast scene (fst (shadow_ray hit_loc l))
                               (snd (shadow_ray hit_loc l)))"
  let ?sl = "shade_lights scene ray_dir hit_loc hit_norm mat lights (zeros, True)"
  let ?pow = "\<forall>x. float_pow x (specular_hardness mat) \<noteq> None"
  define inside where
    "inside = snd (flip_normal (hit_normal (ray_cast scene ray_orig ray_dir)) ray_dir)"
  have tr: "snd (RT_trace_ray scene ray_orig ray_dir lights depth)
      = snd (RT_trace_ray_shade scene ray_dir hit_loc hit_norm inside mat lights depth zeros)"
    unfolding assms(2-4) inside_def
    by (simp add: RT_trace_ray_hit [OF assms(1)] Let_def)
  have p1: "length_squared (vsub (location light) hit_loc) = 0 \<longleftrightarrow> location light = hit_loc"
    by (simp add: length_squared_eq_0_iff vsub_eq_0_iff)
  have p2: "norm_vec (vadd (snd (shadow_ray hit_loc light)) (vneg ray_dir)) = 0
         \<longleftrightarrow> snd (shadow_ray hit_loc light) = ray_dir"
    by (rule half_vector_eq_0_iff)
  have p3: "(\<exists>st. ?sl = (map (shadow_ray hit_loc) lights, Inr st) \<and> (?pow \<longrightarrow> is_finite (fst st)))
            \<and> (\<not> 0 < depth \<and> (use_fresnel mat \<longrightarrow> ior mat \<noteq> - 1)
                  \<longrightarrow> (\<exists>c. snd (RT_trace_ray scene ray_orig ray_dir lights depth) = Inr c
                          \<and> (?pow \<longrightarrow> is_finite c)))"
    if safe: "\<forall>l \<in> set lights. ?occ l \<or> (location l \<noteq> hit_loc \<and> snd (shadow_ray hit_loc l) \<noteq> ray_dir)"
  proof -
    from safe have "\<forall>l \<in> set lights. ?occ l \<or> snd (shadow_ray hit_loc l) \<noteq> ray_dir"
      by blast
    then obtain st where st: "?sl = (map (shadow_ray hit_loc) lights, Inr st)"
      using shade_lights_no_raise [of lights scene hit_loc ray_dir hit_norm mat "(zeros, True)"]
      by blast
    have fin: "is_finite (fst st)" if pow: ?pow
    proof -
      obtain st' where "snd ?sl = Inr st'" "is_finite (fst st')"
        using shade_lights_safe [OF safe pow, of "(zeros, True)" hit_norm] by auto
      then show ?thesis using st by simp
    qed
    have a: "\<exists>st. ?sl = (map (shadow_ray hit_loc) lights, Inr st) \<and> (?pow \<longrightarrow> is_finite (fst st))"
      using st fin by blast
    have b: "\<exists>c. snd (RT_trace_ray scene ray_orig ray_dir lights depth) = Inr c
                  \<and> (?pow \<longrightarrow> is_finite c)"
      if d: "\<not> 0 < depth" and f: "use_fresnel mat \<longrightarrow> ior mat \<noteq> - 1"
    proof -
      have "snd ?sl = Inr st" using st by simp
      from shade_depth_0_safe [OF d f this, of inside]
      obtain c where c: "snd (RT_trace_ray_shade scene ray_dir hit_loc hit_norm inside mat
                                lights depth zeros) = Inr c"
        and cf: "is_finite (fst st) \<longrightarrow> is_finite c"
        by blast
      show ?thesis
        unfolding tr using c cf fin by blast
    qed
    show ?thesis using a b by blast
  qed
  have p4: "snd (RT_trace_ray scene ray_orig ray_dir lights depth) = Inl ZeroDivisionError"
    if "light \<in> set lights" "\<not> ?occ light" "snd (shadow_ray hit_loc light) = ray_dir"
    unfolding tr
    using shade_raises [OF shade_lights_dir [OF that, of hit_norm mat "(zeros, True)"]]
    by simp
  have p5: "snd (RT_trace_ray scene ray_orig ray_dir lights depth) = Inl ZeroDivisionError
             \<or> snd (RT_trace_ray scene ray_orig ray_dir lights depth)
                 = Inr (None, None, None)"
    if "light \<in> set lights" "\<not> ?occ light" "location light = hit_loc"
    unfolding tr
    by (rule shade_Nones [OF shade_lights_at_light [OF that]])
  show ?thesis
    using p1 p2 p3 p4 p5 by blast
qed

text \<open>The witness, at the floor point (0, 0, 0) seen from straight above: the lamp meets
  both preconditions; the lamp straight below the point has \<open>light_dir = ray_dir\<close>; the
  lamp on the floor point itself is at the hit point.\<close>

theorem shading_divisions_witness:
  "has_hit (ray_cast (demo_scene shiny shiny) (0, 0, 1) (0, 0, - 1))
   \<and> (0, 0, 0) = hit_location (ray_cast (demo_scene shiny shiny) (0, 0, 1) (0, 0, - 1))
   \<and> (0, 0, 1) = fst (flip_normal
         (hit_normal (ray_cast (demo_scene shiny shiny) (0, 0, 1) (0, 0, - 1))) (0, 0, - 1))
   \<and> shiny = hit_object (ray_cast (demo_scene shiny shiny) (0, 0, 1) (0, 0, - 1))
   \<and> \<not> has_hit (ray_cast (demo_scene shiny shiny) (fst (shadow_ray (0, 0, 0) lamp))
                   (snd (shadow_ray (0, 0, 0) lamp)))
   \<and> location lamp \<noteq> (0, 0, 0)
   \<and> snd (shadow_ray (0, 0, 0) lamp) \<noteq> (0, 0, - 1)
   \<and> length_squared (vsub (location lamp) (0, 0, 0)) \<noteq> 0
   \<and> norm_vec (vadd (snd (shadow_ray (0, 0, 0) lamp)) (vneg (0, 0, - 1))) \<noteq> 0
   \<and> (\<exists>st. shade_lights (demo_scene shiny shiny) (0, 0, - 1) (0, 0, 0) (0, 0, 1) shiny [lamp]
               (zeros, True) = ([shadow_ray (0, 0, 0) lamp], Inr st)
           \<and> is_finite (fst st))
   \<and> (\<exists>c. snd (RT_trace_ray (demo_scene shiny shiny) (0, 0, 1) (0, 0, - 1) [lamp] 0) = Inr c
           \<and> is_finite c)
   \<and> \<not> has_hit (ray_cast (demo_scene shiny shiny) (fst (shadow_ray (0, 0, 0) nadir_lamp))
                   (snd (shadow_ray (0, 0, 0) nadir_lamp)))
   \<and> snd (shadow_ray (0, 0, 0) nadir_lamp) = (0, 0, - 1)
   \<and> norm_vec (vadd (snd (shadow_ray (0, 0, 0) nadir_lamp)) (vneg (0, 0, - 1))) = 0
   \<and> snd (RT_trace_ray (demo_scene shiny shiny) (0, 0, 1) (0, 0, - 1) [lamp, nadir_lamp] 1)
       = Inl ZeroDivisionError
   \<and> \<not> has_hit (ray_cast (demo_scene shiny shiny) (fst (shadow_ray (0, 0, 0) floor_lamp))
                   (snd (shadow_ray (0, 0, 0) floor_lamp)))
   \<and> location floor_lamp = (0, 0, 0)
   \<and> length_squared (vsub (location floor_lamp) (0, 0, 0)) = 0
   \<and> (snd (RT_trace_ray (demo_scene shiny shiny) (0, 0, 1) (0, 0, - 1) [floor_lamp] 1)
         = Inl ZeroDivisionError
       \<or> snd (RT_trace_ray (demo_scene shiny shiny) (0, 0, 1) (0, 0, - 1) [floor_lamp] 1)
         = Inr (None, None, None))"
proof -
  let ?S = "demo_scene shiny shiny"
  have h: "has_hit (ray_cast ?S (0, 0, 1) (0, 0, - 1))"
    by (simp add: demo_floor_hit_0)
  have hl: "(0, 0, 0) = hit_location (ray_cast ?S (0, 0, 1) (0, 0, - 1))"
    by (simp add: demo_floor_hit_0)
  have hn: "(0, 0, 1) = fst (flip_normal (hit_normal (ray_cast ?S (0, 0, 1) (0, 0, - 1)))
                               (0, 0, - 1))"
    by (simp add: demo_floor_hit_0 demo_flip_0)
  have hm: "shiny = hit_object (ray_cast ?S (0, 0, 1) (0, 0, - 1))"
    by (simp add: demo_floor_hit_0)
  have o1: "\<not> has_hit (ray_cast ?S (fst (shadow_ray (0, 0, 0) lamp))
                         (snd (shadow_ray (0, 0, 0) lamp)))"
    by (simp add: demo_shadow_0 demo_scene_def demo_cast_def miss_def)
  have l1: "location lamp \<noteq> (0, 0, 0)"
    by (simp add: location_lamp)
  have d1: "snd (shadow_ray (0, 0, 0) lamp) \<noteq> (0, 0, - 1)"
    by (simp add: demo_shadow_0)
  have safe: "\<forall>l \<in> set [lamp].
       has_hit (ray_cast ?S (fst (shadow_ray (0, 0, 0) l)) (snd (shadow_ray (0, 0, 0) l)))
       \<or> (location l \<noteq> (0, 0, 0) \<and> snd (shadow_ray (0, 0, 0) l) \<noteq> (0, 0, - 1))"
    using l1 d1 by simp
  have pow: "\<forall>x. float_pow x (specular_hardness shiny) \<noteq> None"
    by (simp add: shiny_def float_pow_2)
  have fr: "\<not> 0 < (0 :: int) \<and> (use_fresnel shiny \<longrightarrow> ior shiny \<noteq> - 1)"
    by (simp add: shiny_def)
  note w1 = shading_divisions [where lights = "[lamp]" and depth = 0 and light = lamp,
              OF h hl hn hm]
  have a1: "length_squared (vsub (location lamp) (0, 0, 0)) \<noteq> 0"
    using w1 [THEN conjunct1] l1 by simp
  have a2: "norm_vec (vadd (snd (shadow_ray (0, 0, 0) lamp)) (vneg (0, 0, - 1))) \<noteq> 0"
    using w1 [THEN conjunct2, THEN conjunct1] d1 by simp
  note s1 = w1 [THEN conjunct2, THEN conjunct2, THEN conjunct1, THEN mp, OF safe]
  have a3: "\<exists>st. shade_lights ?S (0, 0, - 1) (0, 0, 0) (0, 0, 1) shiny [lamp] (zeros, True)
                    = ([shadow_ray (0, 0, 0) lamp], Inr st)
                \<and> is_finite (fst st)"
    using s1 [THEN conjunct1] pow by simp
  have a4: "\<exists>c. snd (RT_trace_ray ?S (0, 0, 1) (0, 0, - 1) [lamp] 0) = Inr c \<and> is_finite c"
    using s1 [THEN conjunct2, THEN mp, OF fr] pow by simp
  have o2: "\<not> has_hit (ray_cast ?S (fst (shadow_ray (0, 0, 0) nadir_lamp))
                         (snd (shadow_ray (0, 0, 0) nadir_lamp)))"
    by (simp add: demo_shadow_nadir demo_scene_def demo_cast_def miss_def)
  have d2: "snd (shadow_ray (0, 0, 0) nadir_lamp) = (0, 0, - 1)"
    by (simp add: demo_shadow_nadir)
  note w2 = shading_divisions [where lights = "[lamp, nadir_lamp]" and depth = 1
              and light = nadir_lamp, OF h hl hn hm]
  have b1: "norm_vec (vadd (snd (shadow_ray (0, 0, 0) nadir_lamp)) (vneg (0, 0, - 1))) = 0"
    using w2 [THEN conjunct2, THEN conjunct1] d2 by simp
  have b2: "snd (RT_trace_ray ?S (0, 0, 1) (0, 0, - 1) [lamp, nadir_lamp] 1)
              = Inl ZeroDivisionError"
    using w2 [THEN conjunct2, THEN conjunct2, THEN conjunct2, THEN conjunct1] o2 d2 by simp
  have o3: "\<not> has_hit (ray_cast ?S (fst (shadow_ray (0, 0, 0) floor_lamp))
                         (snd (shadow_ray (0, 0, 0) floor_lamp)))"
    by (simp add: shadow_floor_lamp demo_scene_def demo_cast_def miss_def)
  have l3: "location floor_lamp = (0, 0, 0)"
    by (simp add: floor_lamp_def)
  note w3 = shading_divisions [where lights = "[floor_lamp]" and depth = 1
              and light = floor_lamp, OF h hl hn hm]
  have c1: "length_squared (vsub (location floor_lamp) (0, 0, 0)) = 0"
    using w3 [THEN conjunct1] l3 by simp
  have c2: "snd (RT_trace_ray ?S (0, 0, 1) (0, 0, - 1) [floor_lamp] 1) = Inl ZeroDivisionError
       \<or> snd (RT_trace_ray ?S (0, 0, 1) (0, 0, - 1) [floor_lamp] 1) = Inr (None, None, None)"
    using w3 [THEN conjunct2, THEN conjunct2, THEN conjunct2, THEN conjunct2] o3 l3 by simp
  show ?thesis
    using h hl hn hm o1 l1 d1 a1 a2 a3 a4 o2 d2 b1 b2 o3 l3 c1 c2 by blast
qed

end
